theory Spec2Isabelle
  imports Main "HOL-Library.Char_ord" "HOL-Library.List_Lexorder"
begin

section \<open>Python strings\<close>

text \<open>
  A Python \<open>str\<close> is modelled as a \<open>string\<close> whose characters are the code points
  0..255. The order on strings is the lexicographic order of the code points, which is
  what Python's \<open><\<close> and \<open>>=\<close> on \<open>str\<close> compute.
\<close>

definition isspace :: "char \<Rightarrow> bool" where
  \<comment> \<open>\<open>str.isspace\<close> on one character: TAB, LF, VT, FF, CR, FS, GS, RS, US, space,
      NEL and NBSP.\<close>
  "isspace c = (of_char c \<in> {9, 10, 11, 12, 13, 28, 29, 30, 31, 32, 133, 160 :: nat})"

definition strip :: "string \<Rightarrow> string" where
  \<comment> \<open>\<open>s.strip()\<close>\<close>
  "strip s = rev (dropWhile isspace (rev (dropWhile isspace s)))"

definition lower_char :: "char \<Rightarrow> char" where
  "lower_char c =
     (let n = (of_char c :: nat)
      in if (65 \<le> n \<and> n \<le> 90) \<or> (192 \<le> n \<and> n \<le> 222 \<and> n \<noteq> 215)
         then char_of (n + 32) else c)"

definition lower :: "string \<Rightarrow> string" where
  \<comment> \<open>\<open>s.lower()\<close>\<close>
  "lower s = map lower_char s"

fun split :: "char \<Rightarrow> string \<Rightarrow> string list" where
  \<comment> \<open>\<open>s.split(sep)\<close> for a separator of one character: never the empty list.\<close>
  "split sep [] = [[]]"
| "split sep (c # cs) =
     (if c = sep then [] # split sep cs
      else (case split sep cs of
              [] \<Rightarrow> [[c]]
            | p # ps \<Rightarrow> (c # p) # ps))"

fun join :: "string \<Rightarrow> string list \<Rightarrow> string" where
  \<comment> \<open>\<open>sep.join(parts)\<close>\<close>
  "join sep [] = []"
| "join sep [p] = p"
| "join sep (p # q # ps) = p @ sep @ join sep (q # ps)"

datatype py_error = IndexError | TypeError

definition getitem :: "'a list \<Rightarrow> nat \<Rightarrow> py_error + 'a" where
  \<comment> \<open>\<open>xs[i]\<close> for a literal index \<open>i \<ge> 0\<close>: out of range raises.\<close>
  "getitem xs i = (if i < length xs then Inr (xs ! i) else Inl IndexError)"

definition or_empty :: "string option \<Rightarrow> string" where
  \<comment> \<open>\<open>v or ""\<close> for a value that is a string or \<open>None\<close>\<close>
  "or_empty v = (case v of None \<Rightarrow> [] | Some s \<Rightarrow> s)"


section \<open>JSON values that a handler only tests\<close>

text \<open>
  The fields \<open>active\<close> and \<open>type\<close> of a request body are never used as strings or
  numbers: the handlers test the truth value of the first and compare the second with two
  constants, so any JSON value is accepted there. Floating-point numbers are left out.
\<close>

datatype json =
    JNull
  | JBool bool
  | JInt int
  | JStr string
  | JList "json list"
  | JObj "(string \<times> json) list"

fun truthy :: "json \<Rightarrow> bool" where
  \<comment> \<open>Python's \<open>bool(v)\<close>\<close>
  "truthy JNull = False"
| "truthy (JBool b) = b"
| "truthy (JInt n) = (n \<noteq> 0)"
| "truthy (JStr s) = (s \<noteq> [])"
| "truthy (JList xs) = (xs \<noteq> [])"
| "truthy (JObj kvs) = (kvs \<noteq> [])"


section \<open>Stored records and task objects\<close>

text \<open>A row of the table \<open>tasks\<close>; a column that may hold NULL is an option.\<close>

record task_row =
  row_id :: int
  row_title :: string
  row_description :: "string option"
  max_volunteers :: "int option"
  slot_duration_mins :: "int option"
  row_type :: string
  days_of_week :: "string option"
  time_windows :: "string option"
  event_dates :: "string option"
  row_active :: int
  created_at :: string
  updated_at :: string

record window =
  w_start :: string
  w_end :: string

text \<open>The dictionary that \<open>row_to_task\<close> returns.\<close>

record task =
  t_id :: int
  t_title :: string
  t_description :: string
  maxVolunteers :: "int option"
  slotDurationMins :: "int option"
  t_type :: string
  daysOfWeek :: "string list"
  timeWindows :: "window list"
  eventDates :: "string list"
  t_active :: bool
  createdAt :: string
  updatedAt :: string


section \<open>Serialization helpers\<close>

definition decode_window :: "string \<Rightarrow> py_error + window" where
  \<comment> \<open>\<open>{"start": p.split("-")[0], "end": p.split("-")[1]}\<close>\<close>
  "decode_window p =
     (case getitem (split CHR ''-'' p) 0 of
        Inl e \<Rightarrow> Inl e
      | Inr s \<Rightarrow>
          (case getitem (split CHR ''-'' p) 1 of
             Inl e \<Rightarrow> Inl e
           | Inr e \<Rightarrow> Inr \<lparr>w_start = s, w_end = e\<rparr>))"

fun sequence :: "(py_error + 'a) list \<Rightarrow> py_error + 'a list" where
  \<comment> \<open>A list comprehension stops at the first element that raises.\<close>
  "sequence [] = Inr []"
| "sequence (x # xs) =
     (case x of
        Inl e \<Rightarrow> Inl e
      | Inr v \<Rightarrow> (case sequence xs of Inl e \<Rightarrow> Inl e | Inr vs \<Rightarrow> Inr (v # vs)))"

definition decode_csv :: "string option \<Rightarrow> string list" where
  \<comment> \<open>\<open>[d for d in (v or "").split(",") if d]\<close>\<close>
  "decode_csv v = filter (\<lambda>d. d \<noteq> []) (split CHR '','' (or_empty v))"

definition decode_windows :: "string option \<Rightarrow> py_error + window list" where
  \<comment> \<open>\<open>[{...} for p in (v or "").split("|") if "-" in p]\<close>\<close>
  "decode_windows v =
     sequence (map decode_window
       (filter (\<lambda>p. CHR ''-'' \<in> set p) (split CHR ''|'' (or_empty v))))"

definition row_to_task :: "task_row \<Rightarrow> py_error + task" where
  "row_to_task r =
     (case decode_windows (time_windows r) of
        Inl e \<Rightarrow> Inl e
      | Inr ws \<Rightarrow>
          Inr \<lparr>t_id = row_id r,
               t_title = row_title r,
               t_description = or_empty (row_description r),
               maxVolunteers = max_volunteers r,
               slotDurationMins = slot_duration_mins r,
               t_type = row_type r,
               daysOfWeek = decode_csv (days_of_week r),
               timeWindows = ws,
               eventDates = decode_csv (event_dates r),
               t_active = (row_active r \<noteq> 0),
               createdAt = created_at r,
               updatedAt = updated_at r\<rparr>)"

record window_input =
  wi_start :: "string option"
  wi_end :: "string option"

definition encode_window :: "window_input \<Rightarrow> string list" where
  \<comment> \<open>One turn of the loop of \<open>parse_time_windows\<close>: what it appends to \<open>parts\<close>.\<close>
  "encode_window w =
     (let s = strip (or_empty (wi_start w));
          e = strip (or_empty (wi_end w))
      in if s \<noteq> [] \<and> e \<noteq> [] then [s @ ''-'' @ e] else [])"

definition parse_time_windows :: "window_input list option \<Rightarrow> string" where
  "parse_time_windows windows =
     join ''|'' (concat (map encode_window (case windows of None \<Rightarrow> [] | Some ws \<Rightarrow> ws)))"

definition to_csv :: "string list option \<Rightarrow> string" where
  "to_csv items =
     join '','' (filter (\<lambda>x. x \<noteq> []) (case items of None \<Rightarrow> [] | Some xs \<Rightarrow> xs))"


section \<open>The store\<close>

text \<open>
  \<open>generate_password_hash\<close> and \<open>check_password_hash\<close> belong to a library. They are
  modelled as an ideal hash: the stored value remembers which password it was made from,
  and the check succeeds for that password only.
\<close>

datatype pwhash = PwHash string

definition generate_password_hash :: "string \<Rightarrow> pwhash" where
  "generate_password_hash p = PwHash p"

fun check_password_hash :: "pwhash \<Rightarrow> string \<Rightarrow> bool" where
  "check_password_hash (PwHash p) q = (p = q)"

record admin_row =
  admin_id :: int
  email :: string
  password_hash :: pwhash
  admin_created_at :: string

record appointment_row =
  appt_id :: int
  task_id :: int
  date :: string
  start_time :: string
  end_time :: string
  phone :: string
  appt_created_at :: string

text \<open>
  The database: the three tables in insertion order, and for each the largest id that
  AUTOINCREMENT has handed out so far. The time of a request,
  \<open>datetime.utcnow().isoformat()\<close>, is an argument \<open>now\<close> of the operation.

  Python's integers are unbounded and so are the model's. SQLite holds signed 64-bit
  integers, and binding an integer outside that range to a statement raises
  OverflowError; the operations below have no such branch. They agree with the code
  where every integer that a request hands to a statement is in the range (\<open>int64\<close>
  below), and the statements about such an integer assume it.
\<close>

record db =
  admins :: "admin_row list"
  admins_seq :: int
  tasks :: "task_row list"
  tasks_seq :: int
  appointments :: "appointment_row list"
  appointments_seq :: int

definition next_id :: "int \<Rightarrow> int list \<Rightarrow> int" where
  \<comment> \<open>AUTOINCREMENT: one more than every id in the table and every id used before.\<close>
  "next_id seq ids = fold max ids (max seq 0) + 1"

definition fetchone :: "'a list \<Rightarrow> 'a option" where
  "fetchone rows = (case rows of [] \<Rightarrow> None | r # _ \<Rightarrow> Some r)"

definition init_db :: db where
  \<comment> \<open>The tables that \<open>init_db\<close> creates in a new file.\<close>
  "init_db = \<lparr>admins = [], admins_seq = 0, tasks = [], tasks_seq = 0,
              appointments = [], appointments_seq = 0\<rparr>"

definition ensure :: "string \<Rightarrow> string \<Rightarrow> db \<Rightarrow> db" where
  \<comment> \<open>The local function \<open>ensure\<close> of \<open>seed_admin\<close>; the first argument is the time.\<close>
  "ensure now e d =
     (if fetchone (filter (\<lambda>r. email r = e) (admins d)) = None
      then let i = next_id (admins_seq d) (map admin_id (admins d))
           in d\<lparr>admins := admins d @
                  [\<lparr>admin_id = i, email = e,
                    password_hash = generate_password_hash ''admin'',
                    admin_created_at = now\<rparr>],
                admins_seq := i\<rparr>
      else d)"

definition seed_admin :: "string \<Rightarrow> db \<Rightarrow> db" where
  "seed_admin now d = ensure now ''admin'' (ensure now ''admin@example.com'' d)"


section \<open>Requests, sessions and responses\<close>

text \<open>
  A request body is a record of the fields that the handler reads, each at the type the
  API gives it; a field that is absent or null is \<open>None\<close>, so the empty body \<open>{}\<close> is
  the record of \<open>None\<close>s. A body that holds a value of another JSON type in a typed
  field (a number for a date, say) is outside the model. The session is the pair of keys
  that login sets. A response is the status with the JSON body; an exception that
  escapes a handler is the status 500.
\<close>

record session =
  sess_admin_id :: "int option"
  sess_admin_email :: "string option"

record login_request =
  login_email :: "string option"
  login_password :: "string option"

record task_input =
  in_title :: "string option"
  in_description :: "string option"
  in_maxVolunteers :: "int option"
  in_slotDurationMins :: "int option"
  in_type :: json
  in_daysOfWeek :: "string list option"
  in_timeWindows :: "window_input list option"
  in_eventDates :: "string list option"
  in_active :: json

record booking_request =
  req_taskId :: "int option"
  req_date :: "string option"
  req_startTime :: "string option"
  req_endTime :: "string option"
  req_phone :: "string option"

datatype body =
    Error string
  | Ok
  | LoginOk string
  | LoginFailed string
  | TaskJson task
  | TaskList "task list"
  | Exception py_error

type_synonym response = "nat \<times> body"


section \<open>Auth API\<close>

definition api_login ::
  "(admin_row list \<Rightarrow> admin_row list) \<Rightarrow> db \<Rightarrow> session \<Rightarrow> login_request
     \<Rightarrow> response \<times> session" where
  \<comment> \<open>The query has no ORDER BY: \<open>result_order\<close> is the order in which the engine yields
      the rows that match.\<close>
  "api_login result_order d sess data =
     (let identifier = lower (strip (or_empty (login_email data)));
          password = or_empty (login_password data);
          rows = (if CHR ''@'' \<in> set identifier
                  then filter (\<lambda>r. email r = identifier) (admins d)
                  else filter (\<lambda>r. email r = identifier
                                   \<or> email r = identifier @ ''@example.com'') (admins d))
      in case fetchone (result_order rows) of
           None \<Rightarrow> ((401, LoginFailed ''Invalid credentials''), sess)
         | Some row \<Rightarrow>
             if check_password_hash (password_hash row) password
             then ((200, LoginOk (email row)),
                   sess\<lparr>sess_admin_id := Some (admin_id row),
                        sess_admin_email := Some (email row)\<rparr>)
             else ((401, LoginFailed ''Invalid credentials''), sess))"

definition require_admin :: "session \<Rightarrow> bool" where
  "require_admin sess = (case sess_admin_id sess of None \<Rightarrow> False | Some i \<Rightarrow> i \<noteq> 0)"


section \<open>Public API\<close>

definition order_by_id_desc :: "task_row list \<Rightarrow> task_row list" where
  "order_by_id_desc rows = rev (sort_key row_id rows)"

definition api_tasks_public :: "db \<Rightarrow> response" where
  "api_tasks_public d =
     (case sequence (map row_to_task
             (order_by_id_desc (filter (\<lambda>r. row_active r = 1) (tasks d)))) of
        Inl e \<Rightarrow> (500, Exception e)
      | Inr out \<Rightarrow> (200, TaskList out))"


section \<open>Admin task CRUD\<close>

definition slot_mins_of :: "int option \<Rightarrow> int" where
  \<comment> \<open>\<open>int(v or 60)\<close>\<close>
  "slot_mins_of v = (case v of None \<Rightarrow> 60 | Some n \<Rightarrow> if n = 0 then 60 else n)"

definition type_of :: "json \<Rightarrow> string" where
  \<comment> \<open>\<open>v if v in ("recurring", "event") else "recurring"\<close>\<close>
  "type_of v = (if v = JStr ''recurring'' then ''recurring''
                else if v = JStr ''event'' then ''event''
                else ''recurring'')"

definition active_of :: "json \<Rightarrow> int" where
  \<comment> \<open>\<open>1 if v else 0\<close>\<close>
  "active_of v = (if truthy v then 1 else 0)"

definition make_row :: "int \<Rightarrow> string \<Rightarrow> string \<Rightarrow> string \<Rightarrow> task_input \<Rightarrow> task_row" where
  \<comment> \<open>The row that holds the values both handlers compute from the request body, given
      its id, the title already stripped, and the two timestamps.\<close>
  "make_row i title created updated data =
     \<lparr>row_id = i,
      row_title = title,
      row_description = Some (strip (or_empty (in_description data))),
      max_volunteers = in_maxVolunteers data,
      slot_duration_mins = Some (slot_mins_of (in_slotDurationMins data)),
      row_type = type_of (in_type data),
      days_of_week = Some (to_csv (in_daysOfWeek data)),
      time_windows = Some (parse_time_windows (in_timeWindows data)),
      event_dates = Some (to_csv (in_eventDates data)),
      row_active = active_of (in_active data),
      created_at = created,
      updated_at = updated\<rparr>"

definition select_task :: "int \<Rightarrow> db \<Rightarrow> response" where
  \<comment> \<open>\<open>SELECT * FROM tasks WHERE id=?\<close>, \<open>row_to_task(cur.fetchone())\<close>: the body of the
      answer; the caller sets the status.\<close>
  "select_task i d =
     (case fetchone (filter (\<lambda>r. row_id r = i) (tasks d)) of
        None \<Rightarrow> (500, Exception TypeError)
      | Some r \<Rightarrow> (case row_to_task r of
                    Inl e \<Rightarrow> (500, Exception e)
                  | Inr t \<Rightarrow> (200, TaskJson t)))"

definition api_admin_create :: "string \<Rightarrow> session \<Rightarrow> db \<Rightarrow> task_input \<Rightarrow> response \<times> db" where
  "api_admin_create now sess d data =
     (if \<not> require_admin sess then ((401, Error ''Unauthorized''), d)
      else let title = strip (or_empty (in_title data))
           in if title = [] then ((400, Error ''Title is required''), d)
              else let lastrowid = next_id (tasks_seq d) (map row_id (tasks d));
                       d' = d\<lparr>tasks := tasks d @ [make_row lastrowid title now now data],
                              tasks_seq := lastrowid\<rparr>
                   in (case select_task lastrowid d' of
                         (status, TaskJson t) \<Rightarrow> ((201, TaskJson t), d')
                       | r \<Rightarrow> (r, d')))"

definition api_admin_update ::
  "string \<Rightarrow> session \<Rightarrow> db \<Rightarrow> int \<Rightarrow> task_input \<Rightarrow> response \<times> db" where
  "api_admin_update now sess d i data =
     (if \<not> require_admin sess then ((401, Error ''Unauthorized''), d)
      else let title = strip (or_empty (in_title data))
           in if title = [] then ((400, Error ''Title is required''), d)
              else if fetchone (filter (\<lambda>r. row_id r = i) (tasks d)) = None
                   then ((404, Error ''Task not found''), d)
                   else let d' = d\<lparr>tasks :=
                                     map (\<lambda>r. if row_id r = i
                                              then make_row (row_id r) title (created_at r) now data
                                              else r) (tasks d)\<rparr>
                        in (select_task i d', d'))"


section \<open>Appointments\<close>

definition truthy_id :: "int option \<Rightarrow> bool" where
  \<comment> \<open>The truth value of \<open>data.get("taskId")\<close>: absent and 0 are false.\<close>
  "truthy_id v = (case v of None \<Rightarrow> False | Some n \<Rightarrow> n \<noteq> 0)"

definition insert_appointment ::
  "string \<Rightarrow> int option \<Rightarrow> string \<Rightarrow> string \<Rightarrow> string \<Rightarrow> string \<Rightarrow> db \<Rightarrow> db" where
  \<comment> \<open>The INSERT of the booking handler. The column \<open>task_id\<close> is NOT NULL: without
      an id nothing is stored (the handler never gets that far).\<close>
  "insert_appointment now tid date' start end' phone' d =
     (case tid of
        None \<Rightarrow> d
      | Some t \<Rightarrow>
          let i = next_id (appointments_seq d) (map appt_id (appointments d))
          in d\<lparr>appointments := appointments d @
                 [\<lparr>appt_id = i, task_id = t, date = date',
                   start_time = start, end_time = end', phone = phone',
                   appt_created_at = now\<rparr>],
               appointments_seq := i\<rparr>)"

definition num_overlap :: "string \<Rightarrow> string \<Rightarrow> appointment_row list \<Rightarrow> int" where
  \<comment> \<open>\<open>sum(start < r["end_time"] and r["start_time"] < end for r in existing)\<close>\<close>
  "num_overlap start end' existing =
     sum_list (map (\<lambda>r. if start < end_time r \<and> start_time r < end' then 1 else 0) existing)"

definition api_appointments_create :: "string \<Rightarrow> db \<Rightarrow> booking_request \<Rightarrow> response \<times> db" where
  "api_appointments_create now d data =
     (let tid = req_taskId data;
          date' = strip (or_empty (req_date data));
          start = strip (or_empty (req_startTime data));
          end' = strip (or_empty (req_endTime data));
          phone' = strip (or_empty (req_phone data))
      in if \<not> (truthy_id tid \<and> date' \<noteq> [] \<and> start \<noteq> [] \<and> end' \<noteq> [] \<and> phone' \<noteq> [])
         then ((400, Error ''Missing fields''), d)
         else if start \<ge> end'
         then ((400, Error ''End time must be after start time''), d)
         else (case fetchone (filter (\<lambda>r. Some (row_id r) = tid \<and> row_active r = 1) (tasks d)) of
                 None \<Rightarrow> ((404, Error ''Task not found or inactive''), d)
               | Some task \<Rightarrow>
                   let existing = filter (\<lambda>a. Some (task_id a) = tid \<and> date a = date')
                                    (appointments d);
                       n = num_overlap start end' existing
                   in if (case max_volunteers task of None \<Rightarrow> False | Some max_vol \<Rightarrow> n \<ge> max_vol)
                      then ((409, Error ''That time slot is full.''), d)
                      else ((200, Ok),
                            insert_appointment now tid date' start end' phone' d)))"


section \<open>Notions used in the statements\<close>

definition before_sep :: "char \<Rightarrow> string \<Rightarrow> string" where
  \<comment> \<open>The text before the first occurrence of \<open>c\<close> (all of it when there is none).\<close>
  "before_sep c p = takeWhile (\<lambda>x. x \<noteq> c) p"

definition after_sep :: "char \<Rightarrow> string \<Rightarrow> string" where
  \<comment> \<open>Everything after the first occurrence of \<open>c\<close>.\<close>
  "after_sep c p = tl (dropWhile (\<lambda>x. x \<noteq> c) p)"

definition windows_of :: "string \<Rightarrow> window list" where
  \<comment> \<open>One window for every fragment between bars that holds a dash: its first two
      dash-separated fields.\<close>
  "windows_of s =
     map (\<lambda>p. \<lparr>w_start = before_sep CHR ''-'' p,
               w_end = before_sep CHR ''-'' (after_sep CHR ''-'' p)\<rparr>)
       (filter (\<lambda>p. CHR ''-'' \<in> set p) (split CHR ''|'' s))"

text \<open>The fields of a booking request as the handler reads them, trimmed.\<close>

definition date_of :: "booking_request \<Rightarrow> string" where
  "date_of data = strip (or_empty (req_date data))"

definition start_of :: "booking_request \<Rightarrow> string" where
  "start_of data = strip (or_empty (req_startTime data))"

definition end_of :: "booking_request \<Rightarrow> string" where
  "end_of data = strip (or_empty (req_endTime data))"

definition phone_of :: "booking_request \<Rightarrow> string" where
  "phone_of data = strip (or_empty (req_phone data))"

definition fields_ok :: "booking_request \<Rightarrow> bool" where
  \<comment> \<open>A request with valid fields: a task id that is not 0, and a date, a start, an end
      and a phone that are not empty after trimming.\<close>
  "fields_ok data =
     (truthy_id (req_taskId data) \<and> date_of data \<noteq> [] \<and> start_of data \<noteq> []
      \<and> end_of data \<noteq> [] \<and> phone_of data \<noteq> [])"

definition overlaps :: "string \<Rightarrow> string \<Rightarrow> appointment_row \<Rightarrow> bool" where
  \<comment> \<open>The test of the specification: \<open>newStart < existingEnd AND existingStart < newEnd\<close>.\<close>
  "overlaps start end' a = (start < end_time a \<and> start_time a < end')"

definition overlapping :: "db \<Rightarrow> int \<Rightarrow> string \<Rightarrow> string \<Rightarrow> string \<Rightarrow> appointment_row list" where
  \<comment> \<open>The stored appointments of task \<open>t\<close> on the date \<open>dt\<close> that overlap the window.\<close>
  "overlapping d t dt start end' =
     filter (\<lambda>a. task_id a = t \<and> date a = dt \<and> overlaps start end' a) (appointments d)"

definition int64 :: "int \<Rightarrow> bool" where
  \<comment> \<open>An integer that SQLite can hold, so that binding it to a statement succeeds.\<close>
  "int64 n = (- (2 ^ 63) \<le> n \<and> n < 2 ^ 63)"

definition storable :: "task_input \<Rightarrow> bool" where
  \<comment> \<open>The two integers that create and update bind from the request body, the capacity
      and the slot duration, are in the range.\<close>
  "storable data =
     ((case in_maxVolunteers data of None \<Rightarrow> True | Some n \<Rightarrow> int64 n)
      \<and> int64 (slot_mins_of (in_slotDurationMins data)))"

definition tasks_key :: "db \<Rightarrow> bool" where
  \<comment> \<open>\<open>id INTEGER PRIMARY KEY\<close>: no two tasks share an id.\<close>
  "tasks_key d = distinct (map row_id (tasks d))"

definition active_task :: "db \<Rightarrow> int \<Rightarrow> task_row option" where
  \<comment> \<open>The active task with the id \<open>t\<close>, if there is one.\<close>
  "active_task d t = fetchone (filter (\<lambda>r. row_id r = t \<and> row_active r = 1) (tasks d))"


definition task_of :: "task_row \<Rightarrow> task" where
  \<comment> \<open>The decoded form of a row.\<close>
  "task_of r =
     \<lparr>t_id = row_id r,
      t_title = row_title r,
      t_description = or_empty (row_description r),
      maxVolunteers = max_volunteers r,
      slotDurationMins = slot_duration_mins r,
      t_type = row_type r,
      daysOfWeek = decode_csv (days_of_week r),
      timeWindows = windows_of (or_empty (time_windows r)),
      eventDates = decode_csv (event_dates r),
      t_active = (row_active r \<noteq> 0),
      createdAt = created_at r,
      updatedAt = updated_at r\<rparr>"

definition title_of :: "task_input \<Rightarrow> string" where
  \<comment> \<open>The title of a request body as the handlers read it, trimmed.\<close>
  "title_of data = strip (or_empty (in_title data))"


definition candidate :: "login_request \<Rightarrow> admin_row \<Rightarrow> bool" where
  \<comment> \<open>The account is one that the identifier of the request is looked up as.\<close>
  "candidate data r =
     (let identifier = lower (strip (or_empty (login_email data)))
      in if CHR ''@'' \<in> set identifier then email r = identifier
         else email r = identifier \<or> email r = identifier @ ''@example.com'')"


text \<open>
  The source has no single encoding function: the two admin handlers compute the stored
  columns from the request body. \<open>encode\<close> is that computation for the body that
  carries a task's own fields, with the task's id and timestamps.
\<close>

definition as_input :: "task \<Rightarrow> task_input" where
  \<comment> \<open>The request body whose fields are those of the task.\<close>
  "as_input t =
     \<lparr>in_title = Some (t_title t),
      in_description = Some (t_description t),
      in_maxVolunteers = maxVolunteers t,
      in_slotDurationMins = slotDurationMins t,
      in_type = JStr (t_type t),
      in_daysOfWeek = Some (daysOfWeek t),
      in_timeWindows = Some (map (\<lambda>w. \<lparr>wi_start = Some (w_start w), wi_end = Some (w_end w)\<rparr>)
                               (timeWindows t)),
      in_eventDates = Some (eventDates t),
      in_active = JBool (t_active t)\<rparr>"

definition encode :: "task \<Rightarrow> task_row" where
  "encode t = make_row (t_id t) (title_of (as_input t)) (createdAt t) (updatedAt t) (as_input t)"

definition plain :: "string \<Rightarrow> bool" where
  \<comment> \<open>Not empty, and trimming changes nothing.\<close>
  "plain s = (s \<noteq> [] \<and> strip s = s)"

definition token :: "string \<Rightarrow> bool" where
  \<comment> \<open>An entry of a comma-separated list: not empty, no comma.\<close>
  "token s = (s \<noteq> [] \<and> CHR '','' \<notin> set s)"

definition time_text :: "string \<Rightarrow> bool" where
  \<comment> \<open>A start or an end of a window: plain, with no dash and no bar.\<close>
  "time_text s = (plain s \<and> CHR ''-'' \<notin> set s \<and> CHR ''|'' \<notin> set s)"

definition round_trips :: "task \<Rightarrow> bool" where
  \<comment> \<open>The tasks that encoding and decoding give back unchanged.\<close>
  "round_trips t =
     (strip (t_title t) = t_title t
      \<and> strip (t_description t) = t_description t
      \<and> (case slotDurationMins t of None \<Rightarrow> False | Some n \<Rightarrow> n \<noteq> 0)
      \<and> (t_type t = ''recurring'' \<or> t_type t = ''event'')
      \<and> list_all token (daysOfWeek t)
      \<and> list_all token (eventDates t)
      \<and> list_all (\<lambda>w. time_text (w_start w) \<and> time_text (w_end w)) (timeWindows t))"


section \<open>Example data\<close>

definition ex_now :: string where
  "ex_now = ''2025-08-01T12:00:00''"

definition ex_task :: "int \<Rightarrow> int option \<Rightarrow> task_row" where
  "ex_task i cap =
     \<lparr>row_id = i, row_title = ''Food bank'', row_description = Some [],
      max_volunteers = cap, slot_duration_mins = Some 60, row_type = ''recurring'',
      days_of_week = Some ''Mon,Wed'', time_windows = Some ''09:00-12:00'',
      event_dates = Some [], row_active = 1, created_at = ex_now, updated_at = ex_now\<rparr>"

definition ex_appt :: "int \<Rightarrow> string \<Rightarrow> string \<Rightarrow> string \<Rightarrow> appointment_row" where
  "ex_appt i dt s e =
     \<lparr>appt_id = i, task_id = 1, date = dt, start_time = s, end_time = e,
      phone = ''555-0100'', appt_created_at = ex_now\<rparr>"

definition ex_db :: "int option \<Rightarrow> appointment_row list \<Rightarrow> db" where
  "ex_db cap appts =
     \<lparr>admins = [], admins_seq = 0, tasks = [ex_task 1 cap], tasks_seq = 1,
      appointments = appts, appointments_seq = int (length appts)\<rparr>"

definition ex_req :: "string \<Rightarrow> string \<Rightarrow> string \<Rightarrow> booking_request" where
  "ex_req dt s e =
     \<lparr>req_taskId = Some 1, req_date = Some dt, req_startTime = Some s,
      req_endTime = Some e, req_phone = Some ''555-0101''\<rparr>"

definition ex_sess :: session where
  "ex_sess = \<lparr>sess_admin_id = Some 1, sess_admin_email = Some ''admin@example.com''\<rparr>"

definition ex_input :: "string \<Rightarrow> json \<Rightarrow> task_input" where
  "ex_input title act =
     \<lparr>in_title = Some title, in_description = Some ''Sorting donations'',
      in_maxVolunteers = Some 5, in_slotDurationMins = None, in_type = JStr ''event'',
      in_daysOfWeek = None, in_timeWindows = Some [\<lparr>wi_start = Some ''09:00'', wi_end = Some ''12:00''\<rparr>],
      in_eventDates = Some [''2025-08-20''], in_active = act\<rparr>"

definition by_email_index :: "admin_row list \<Rightarrow> admin_row list" where
  \<comment> \<open>A result order: the rows as the index of the UNIQUE column \<open>email\<close> holds them.\<close>
  "by_email_index rows = sort_key email rows"

definition ex_login :: "string \<Rightarrow> string \<Rightarrow> login_request" where
  "ex_login e p = \<lparr>login_email = Some e, login_password = Some p\<rparr>"

definition no_session :: session where
  "no_session = \<lparr>sess_admin_id = None, sess_admin_email = None\<rparr>"

definition ex_decoded :: "string \<Rightarrow> task" where
  "ex_decoded s =
     \<lparr>t_id = 1, t_title = ''Food bank'', t_description = ''Sorting donations'',
      maxVolunteers = Some 5, slotDurationMins = Some 60, t_type = ''recurring'',
      daysOfWeek = [''Mon'', ''Wed''], timeWindows = [\<lparr>w_start = s, w_end = ''12:00''\<rparr>],
      eventDates = [], t_active = True, createdAt = ex_now, updatedAt = ex_now\<rparr>"


section \<open>Splitting and joining\<close>

lemma split_notin: "c \<notin> set s \<Longrightarrow> split c s = [s]"
  by (induction s) auto

lemma split_append: "c \<notin> set s \<Longrightarrow> split c (s @ c # r) = s # split c r"
  by (induction s) auto

lemma split_decompose:
  "split c s = before_sep c s # (if c \<in> set s then split c (after_sep c s) else [])"
  by (induction s) (auto simp: before_sep_def after_sep_def split: list.splits)

lemma getitem_split_0: "getitem (split c s) 0 = Inr (before_sep c s)"
  by (subst split_decompose) (simp add: getitem_def)

lemma getitem_split_1:
  assumes "c \<in> set s"
  shows "getitem (split c s) (Suc 0) = Inr (before_sep c (after_sep c s))"
proof -
  obtain rest where "split c (after_sep c s) = before_sep c (after_sep c s) # rest"
    using split_decompose [of c "after_sep c s"] by simp
  with assms have "split c s = before_sep c s # before_sep c (after_sep c s) # rest"
    using split_decompose [of c s] by simp
  then show ?thesis by (simp add: getitem_def)
qed

lemma after_sep_single:
  "count_list p c = 1 \<Longrightarrow> before_sep c (after_sep c p) = after_sep c p"
proof (induction p)
  case Nil
  then show ?case by simp
next
  case (Cons x xs)
  show ?case
  proof (cases "x = c")
    case True
    with Cons.prems have "count_list xs c = 0" by simp
    then have "c \<notin> set xs" by (simp add: count_list_0_iff)
    then show ?thesis using True by (auto simp: before_sep_def after_sep_def)
  next
    case False
    with Cons.prems have "count_list xs c = 1" by simp
    then have "before_sep c (after_sep c xs) = after_sep c xs" by (rule Cons.IH)
    moreover have "after_sep c (x # xs) = after_sep c xs"
      using False by (simp add: after_sep_def)
    ultimately show ?thesis by simp
  qed
qed


section \<open>Decoding a stored record\<close>

lemma decode_window_dash:
  "CHR ''-'' \<in> set p \<Longrightarrow>
   decode_window p = Inr \<lparr>w_start = before_sep CHR ''-'' p,
                          w_end = before_sep CHR ''-'' (after_sep CHR ''-'' p)\<rparr>"
  by (simp add: decode_window_def getitem_split_0 getitem_split_1)

lemma sequence_map_Inr:
  "(\<And>x. x \<in> set xs \<Longrightarrow> f x = Inr (g x)) \<Longrightarrow> sequence (map f xs) = Inr (map g xs)"
  by (induction xs) auto

lemma decode_windows_total: "decode_windows v = Inr (windows_of (or_empty v))"
  unfolding decode_windows_def windows_of_def
  by (rule sequence_map_Inr) (simp add: decode_window_dash)

text \<open>
  C5 (as amended). Decoding a stored \<open>time_windows\<close> string splits it on the bar, keeps
  the fragments that hold a dash, and splits each of them on every dash: the start is
  the text before the first dash, the end is the text between the first dash and the
  second one, and what follows a second dash is dropped. For a fragment with exactly one
  dash the end is everything after that dash. NULL decodes to no window.
\<close>

theorem decode_windows_fields:
  "decode_windows None = Inr []
   \<and> decode_windows (Some s) =
       Inr (map (\<lambda>p. \<lparr>w_start = before_sep CHR ''-'' p,
                      w_end = before_sep CHR ''-'' (after_sep CHR ''-'' p)\<rparr>)
              (filter (\<lambda>p. CHR ''-'' \<in> set p) (split CHR ''|'' s)))
   \<and> (count_list p CHR ''-'' = 1 \<longrightarrow>
        decode_window p = Inr \<lparr>w_start = before_sep CHR ''-'' p,
                               w_end = after_sep CHR ''-'' p\<rparr>)"
proof (intro conjI impI)
  show "decode_windows None = Inr []"
    by (simp add: decode_windows_total windows_of_def or_empty_def)
  show "decode_windows (Some s) =
       Inr (map (\<lambda>p. \<lparr>w_start = before_sep CHR ''-'' p,
                      w_end = before_sep CHR ''-'' (after_sep CHR ''-'' p)\<rparr>)
              (filter (\<lambda>p. CHR ''-'' \<in> set p) (split CHR ''|'' s)))"
    by (simp add: decode_windows_total windows_of_def or_empty_def)
next
  assume one: "count_list p CHR ''-'' = 1"
  then have "CHR ''-'' \<in> set p"
    by (metis count_list_0_iff zero_neq_one)
  then show "decode_window p = Inr \<lparr>w_start = before_sep CHR ''-'' p,
                                     w_end = after_sep CHR ''-'' p\<rparr>"
    by (simp add: decode_window_dash after_sep_single [OF one])
qed

theorem decode_windows_fields_witness:
  "count_list ''09:00-12:00'' CHR ''-'' = 1
   \<and> decode_window ''09:00-12:00'' = Inr \<lparr>w_start = ''09:00'', w_end = ''12:00''\<rparr>
   \<and> decode_windows (Some ''09:00-12:00|x|14:00-17:00-late'') =
       Inr [\<lparr>w_start = ''09:00'', w_end = ''12:00''\<rparr>,
            \<lparr>w_start = ''14:00'', w_end = ''17:00''\<rparr>]"
  using decode_windows_fields [of "''09:00-12:00|x|14:00-17:00-late''" "''09:00-12:00''"]
  by (simp add: before_sep_def after_sep_def)

text \<open>
  C5 as stated fails: in the fragment \<open>09:00-12:00-extra\<close> everything after the first
  dash is \<open>12:00-extra\<close>, and the decoded end is \<open>12:00\<close>.
\<close>

theorem decode_windows_end_counterexample:
  "decode_windows (Some ''09:00-12:00-extra'') =
     Inr [\<lparr>w_start = ''09:00'', w_end = ''12:00''\<rparr>]
   \<and> after_sep CHR ''-'' ''09:00-12:00-extra'' = ''12:00-extra''
   \<and> decode_windows (Some ''09:00-12:00-extra'') \<noteq>
     Inr [\<lparr>w_start = ''09:00'', w_end = after_sep CHR ''-'' ''09:00-12:00-extra''\<rparr>]"
  by (simp add: decode_windows_total windows_of_def or_empty_def before_sep_def after_sep_def)

text \<open>
  C6 (as amended). \<open>row_to_task\<close> returns a task for every stored record: the index
  \<open>[1]\<close> is only taken in a fragment that holds a dash, so it is in range and nothing is
  raised. A NULL description decodes to the empty string and a NULL list column to the
  empty list. Malformed delimiter data is dropped without an error: the comma-separated
  columns lose their empty tokens, \<open>time_windows\<close> loses its fragments without a dash,
  and of a fragment that is kept only the first two dash-separated pieces come back, so
  whatever follows a second dash is lost too.
\<close>

theorem row_to_task_total:
  "row_to_task r =
     Inr \<lparr>t_id = row_id r,
          t_title = row_title r,
          t_description = (case row_description r of None \<Rightarrow> [] | Some s \<Rightarrow> s),
          maxVolunteers = max_volunteers r,
          slotDurationMins = slot_duration_mins r,
          t_type = row_type r,
          daysOfWeek =
            (case days_of_week r of
               None \<Rightarrow> []
             | Some s \<Rightarrow> filter (\<lambda>d. d \<noteq> []) (split CHR '','' s)),
          timeWindows =
            (case time_windows r of
               None \<Rightarrow> []
             | Some s \<Rightarrow>
                 map (\<lambda>p. \<lparr>w_start = before_sep CHR ''-'' p,
                           w_end = before_sep CHR ''-'' (after_sep CHR ''-'' p)\<rparr>)
                   (filter (\<lambda>p. CHR ''-'' \<in> set p) (split CHR ''|'' s))),
          eventDates =
            (case event_dates r of
               None \<Rightarrow> []
             | Some s \<Rightarrow> filter (\<lambda>d. d \<noteq> []) (split CHR '','' s)),
          t_active = (row_active r \<noteq> 0),
          createdAt = created_at r,
          updatedAt = updated_at r\<rparr>"
  by (simp add: row_to_task_def decode_windows_total windows_of_def decode_csv_def
        or_empty_def split: option.splits)

text \<open>
  C6 as stated fails in the clause that only empty or dash-free fragments are dropped:
  the stored string \<open>09:00-12:00-extra\<close> has one fragment, which is neither empty nor
  free of dashes, and its record decodes to the same task as the record that stores
  \<open>09:00-12:00\<close>: the text \<open>-extra\<close> is dropped.
\<close>

theorem row_to_task_drop_counterexample:
  "filter (\<lambda>p. p = [] \<or> CHR ''-'' \<notin> set p) (split CHR ''|'' ''09:00-12:00-extra'') = []
   \<and> time_windows (ex_task 1 None) = Some ''09:00-12:00''
   \<and> row_to_task ((ex_task 1 None)\<lparr>time_windows := Some ''09:00-12:00-extra''\<rparr>) =
       row_to_task (ex_task 1 None)
   \<and> timeWindows (task_of ((ex_task 1 None)\<lparr>time_windows := Some ''09:00-12:00-extra''\<rparr>)) =
       [\<lparr>w_start = ''09:00'', w_end = ''12:00''\<rparr>]"
  by (simp add: row_to_task_def decode_windows_total windows_of_def decode_csv_def
        or_empty_def before_sep_def after_sep_def ex_task_def task_of_def)


section \<open>Booking\<close>

lemma num_overlap_length:
  "num_overlap start end' xs = int (length (filter (overlaps start end') xs))"
  by (induction xs) (simp_all add: num_overlap_def overlaps_def)

lemma num_overlap_existing:
  "num_overlap start end' (filter (\<lambda>a. task_id a = t \<and> date a = dt) (appointments d))
     = int (length (overlapping d t dt start end'))"
  by (simp add: num_overlap_length overlapping_def conj_ac cong: conj_cong)

lemma fetchone_key:
  "distinct (map f rows) \<Longrightarrow> r \<in> set rows \<Longrightarrow> P r \<Longrightarrow>
   fetchone (filter (\<lambda>x. f x = f r \<and> P x) rows) = Some r"
proof (induction rows)
  case Nil then show ?case by simp
next
  case (Cons x xs)
  show ?case
  proof (cases "x = r")
    case True
    with Cons.prems show ?thesis by (simp add: fetchone_def)
  next
    case False
    with Cons.prems have "r \<in> set xs" by simp
    with Cons.prems have "f x \<noteq> f r" by auto
    with Cons \<open>r \<in> set xs\<close> show ?thesis by simp
  qed
qed

lemma active_task_stored:
  "tasks_key d \<Longrightarrow> task \<in> set (tasks d) \<Longrightarrow> row_active task = 1 \<Longrightarrow>
   active_task d (row_id task) = Some task"
  unfolding tasks_key_def active_task_def by (rule fetchone_key)

lemma booking_missing:
  "\<not> fields_ok data \<Longrightarrow> api_appointments_create now d data = ((400, Error ''Missing fields''), d)"
  by (auto simp: api_appointments_create_def fields_ok_def date_of_def start_of_def end_of_def phone_of_def Let_def)

lemma booking_order:
  "fields_ok data \<Longrightarrow> end_of data \<le> start_of data \<Longrightarrow>
   api_appointments_create now d data = ((400, Error ''End time must be after start time''), d)"
  by (auto simp: api_appointments_create_def fields_ok_def date_of_def start_of_def end_of_def phone_of_def Let_def)

lemma booking_not_found:
  "fields_ok data \<Longrightarrow> start_of data < end_of data  \<Longrightarrow>
   req_taskId data = Some t \<Longrightarrow> active_task d t = None \<Longrightarrow>
   api_appointments_create now d data = ((404, Error ''Task not found or inactive''), d)"
  by (auto simp: api_appointments_create_def fields_ok_def date_of_def start_of_def end_of_def phone_of_def Let_def active_task_def)

lemma booking_decided:
  assumes "fields_ok data"
    and "start_of data < end_of data"
    and "req_taskId data = Some t"
    and "active_task d t = Some task"
  shows "api_appointments_create now d data =
     (if (case max_volunteers task of
            None \<Rightarrow> False
          | Some max_vol \<Rightarrow>
              max_vol \<le> int (length (overlapping d t (date_of data)
                                 (start_of data)
                                 (end_of data))))
      then ((409, Error ''That time slot is full.''), d)
      else ((200, Ok),
            insert_appointment now (Some t) (date_of data)
              (start_of data) (end_of data)
              (phone_of data) d))"
  using assms
  by (simp add: api_appointments_create_def fields_ok_def date_of_def start_of_def end_of_def phone_of_def Let_def active_task_def
        num_overlap_existing cong: option.case_cong)


lemma booking_full:
  assumes "tasks_key d" "task \<in> set (tasks d)" "row_active task = 1"
    and "req_taskId data = Some (row_id task)" "fields_ok data" "start_of data < end_of data"
    and "max_volunteers task = Some n"
    and "n \<le> int (length (overlapping d (row_id task) (date_of data) (start_of data) (end_of data)))"
  shows "api_appointments_create now d data = ((409, Error ''That time slot is full.''), d)"
  using booking_decided [OF assms(5,6,4) active_task_stored [OF assms(1-3)], of now] assms(7,8)
  by simp

lemma booking_admitted:
  assumes "tasks_key d" "task \<in> set (tasks d)" "row_active task = 1"
    and "req_taskId data = Some (row_id task)" "fields_ok data" "start_of data < end_of data"
    and "max_volunteers task = None \<or> (\<exists>n. max_volunteers task = Some n \<and>
           int (length (overlapping d (row_id task) (date_of data) (start_of data) (end_of data))) < n)"
  shows "api_appointments_create now d data =
     ((200, Ok), insert_appointment now (Some (row_id task)) (date_of data) (start_of data)
                   (end_of data) (phone_of data) d)"
  using booking_decided [OF assms(5,6,4) active_task_stored [OF assms(1-3)], of now] assms(7)
  by auto

lemma no_active_task:
  "\<forall>r\<in>set (tasks d). row_id r = t \<longrightarrow> row_active r \<noteq> 1 \<Longrightarrow> active_task d t = None"
  by (auto simp: active_task_def fetchone_def filter_empty_conv split: list.splits)

lemma booking_status_cases:
  "fst (fst (api_appointments_create now d data)) = 404 \<Longrightarrow>
   fields_ok data \<and> start_of data < end_of data
   \<and> fetchone (filter (\<lambda>r. Some (row_id r) = req_taskId data \<and> row_active r = 1) (tasks d)) = None"
  by (auto simp: api_appointments_create_def fields_ok_def date_of_def start_of_def end_of_def
        phone_of_def Let_def split: if_splits option.splits)

lemma tasks_insert_appointment [simp]:
  "tasks (insert_appointment now tid dt s e ph d) = tasks d"
  by (simp add: insert_appointment_def Let_def split: option.splits)




lemma length_overlapping_ge:
  assumes "distinct as"
    and "\<forall>a\<in>set as. a \<in> set (appointments d) \<and> task_id a = t \<and> date a = dt \<and> overlaps s e a"
  shows "length as \<le> length (overlapping d t dt s e)"
proof -
  have "set as \<subseteq> set (overlapping d t dt s e)"
    using assms(2) by (auto simp: overlapping_def)
  then have "card (set as) \<le> card (set (overlapping d t dt s e))"
    by (intro card_mono) simp_all
  also have "\<dots> \<le> length (overlapping d t dt s e)"
    by (rule card_length)
  finally show ?thesis using assms(1) by (simp add: distinct_card)
qed


lemma booking_other_dates:
  "fst (api_appointments_create now
          (d\<lparr>appointments := filter (\<lambda>a. date a = date_of data) (appointments d)\<rparr>) data) =
   fst (api_appointments_create now d data)"
proof -
  have "filter (\<lambda>a. Some (task_id a) = req_taskId data \<and> date a = date_of data)
          (filter (\<lambda>a. date a = date_of data) (appointments d)) =
        filter (\<lambda>a. Some (task_id a) = req_taskId data \<and> date a = date_of data) (appointments d)"
    by (auto intro: filter_cong)
  then show ?thesis
    by (simp add: api_appointments_create_def Let_def date_of_def split: option.splits)
qed


lemmas ex_defs = ex_now_def ex_task_def ex_appt_def ex_db_def ex_req_def

lemmas req_defs = fields_ok_def date_of_def start_of_def end_of_def phone_of_def
  truthy_id_def or_empty_def strip_def isspace_def

text \<open>
  C1 (as amended). Take a stored, active task with \<open>maxVolunteers = n\<close> and a booking
  request for it with valid fields and \<open>startTime < endTime\<close>. If \<open>n\<close> different stored
  appointments of the task on the requested date overlap the requested window, the
  request is answered 409 and the store is unchanged. In general the request is admitted
  (200, one appointment inserted) exactly when fewer than \<open>n\<close> appointments of the task on
  the requested date overlap the window, and is answered 409 otherwise. The answer does
  not depend on the appointments of any other date: removing them all from the store
  leaves it the same. With \<open>maxVolunteers\<close> absent the request is always admitted.
\<close>

theorem booking_capacity:
  assumes "tasks_key d" and "task \<in> set (tasks d)" and "row_active task = 1"
    and "req_taskId data = Some (row_id task)" and "fields_ok data"
    and "start_of data < end_of data"
  shows
    "(max_volunteers task = Some n \<and> distinct as \<and> int (length as) = n
        \<and> (\<forall>a\<in>set as. a \<in> set (appointments d) \<and> task_id a = row_id task
              \<and> date a = date_of data \<and> overlaps (start_of data) (end_of data) a) \<longrightarrow>
       api_appointments_create now d data = ((409, Error ''That time slot is full.''), d))
     \<and> (max_volunteers task = Some n \<longrightarrow>
       api_appointments_create now d data =
         (if int (length (overlapping d (row_id task) (date_of data)
                    (start_of data) (end_of data))) < n
          then ((200, Ok), insert_appointment now (Some (row_id task)) (date_of data)
                             (start_of data) (end_of data) (phone_of data) d)
          else ((409, Error ''That time slot is full.''), d)))
     \<and> fst (api_appointments_create now
              (d\<lparr>appointments := filter (\<lambda>a. date a = date_of data) (appointments d)\<rparr>) data)
         = fst (api_appointments_create now d data)
     \<and> (max_volunteers task = None \<longrightarrow>
       api_appointments_create now d data =
         ((200, Ok), insert_appointment now (Some (row_id task)) (date_of data)
                       (start_of data) (end_of data) (phone_of data) d))"
proof (intro conjI impI)
  assume h: "max_volunteers task = Some n \<and> distinct as \<and> int (length as) = n
        \<and> (\<forall>a\<in>set as. a \<in> set (appointments d) \<and> task_id a = row_id task
              \<and> date a = date_of data \<and> overlaps (start_of data) (end_of data) a)"
  then have "length as \<le> length (overlapping d (row_id task) (date_of data)
                              (start_of data) (end_of data))"
    by (intro length_overlapping_ge) simp_all
  with h have "n \<le> int (length (overlapping d (row_id task) (date_of data)
                              (start_of data) (end_of data)))"
    by linarith
  with h show "api_appointments_create now d data = ((409, Error ''That time slot is full.''), d)"
    by (intro booking_full [OF assms]) simp_all
next
  assume "max_volunteers task = Some n"
  then show "api_appointments_create now d data =
         (if int (length (overlapping d (row_id task) (date_of data)
                    (start_of data) (end_of data))) < n
          then ((200, Ok), insert_appointment now (Some (row_id task)) (date_of data)
                             (start_of data) (end_of data) (phone_of data) d)
          else ((409, Error ''That time slot is full.''), d))"
    using booking_full [OF assms, of n now] booking_admitted [OF assms, of now]
    by (simp add: not_less)
next
  show "fst (api_appointments_create now
              (d\<lparr>appointments := filter (\<lambda>a. date a = date_of data) (appointments d)\<rparr>) data)
         = fst (api_appointments_create now d data)"
    by (rule booking_other_dates)
next
  assume "max_volunteers task = None"
  then show "api_appointments_create now d data =
         ((200, Ok), insert_appointment now (Some (row_id task)) (date_of data)
                       (start_of data) (end_of data) (phone_of data) d)"
    using booking_admitted [OF assms, of now] by simp
qed

text \<open>
  The theorem at a task of capacity 1 with one appointment 09:00-10:30 on 2025-08-20:
  10:00-11:00 on that date is refused, on 2025-08-21 it is admitted, and with no capacity
  it is admitted on 2025-08-20 too.
\<close>

theorem booking_capacity_witness:
  "tasks_key (ex_db (Some 1) [ex_appt 1 ''2025-08-20'' ''09:00'' ''10:30''])
   \<and> ex_task 1 (Some 1) \<in> set (tasks (ex_db (Some 1) [ex_appt 1 ''2025-08-20'' ''09:00'' ''10:30'']))
   \<and> row_active (ex_task 1 (Some 1)) = 1
   \<and> max_volunteers (ex_task 1 (Some 1)) = Some 1
   \<and> req_taskId (ex_req ''2025-08-20'' ''10:00'' ''11:00'') = Some (row_id (ex_task 1 (Some 1)))
   \<and> fields_ok (ex_req ''2025-08-20'' ''10:00'' ''11:00'')
   \<and> start_of (ex_req ''2025-08-20'' ''10:00'' ''11:00'') < end_of (ex_req ''2025-08-20'' ''10:00'' ''11:00'')
   \<and> distinct [ex_appt 1 ''2025-08-20'' ''09:00'' ''10:30'']
   \<and> int (length [ex_appt 1 ''2025-08-20'' ''09:00'' ''10:30'']) = 1
   \<and> ex_appt 1 ''2025-08-20'' ''09:00'' ''10:30''
        \<in> set (appointments (ex_db (Some 1) [ex_appt 1 ''2025-08-20'' ''09:00'' ''10:30'']))
   \<and> overlaps ''10:00'' ''11:00'' (ex_appt 1 ''2025-08-20'' ''09:00'' ''10:30'')
   \<and> api_appointments_create ex_now (ex_db (Some 1) [ex_appt 1 ''2025-08-20'' ''09:00'' ''10:30''])
         (ex_req ''2025-08-20'' ''10:00'' ''11:00'')
       = ((409, Error ''That time slot is full.''),
          ex_db (Some 1) [ex_appt 1 ''2025-08-20'' ''09:00'' ''10:30''])
   \<and> fst (api_appointments_create ex_now (ex_db (Some 1) [ex_appt 1 ''2025-08-20'' ''09:00'' ''10:30''])
         (ex_req ''2025-08-21'' ''10:00'' ''11:00'')) = (200, Ok)
   \<and> max_volunteers (ex_task 1 None) = None
   \<and> fst (api_appointments_create ex_now (ex_db None [ex_appt 1 ''2025-08-20'' ''09:00'' ''10:30''])
         (ex_req ''2025-08-20'' ''10:00'' ''11:00'')) = (200, Ok)"
proof -
  let ?a = "ex_appt 1 ''2025-08-20'' ''09:00'' ''10:30''"
  let ?same = "ex_req ''2025-08-20'' ''10:00'' ''11:00''"
  let ?other = "ex_req ''2025-08-21'' ''10:00'' ''11:00''"
  have h1: "tasks_key (ex_db (Some 1) [?a])" "ex_task 1 (Some 1) \<in> set (tasks (ex_db (Some 1) [?a]))"
    "row_active (ex_task 1 (Some 1)) = 1"
    "req_taskId ?same = Some (row_id (ex_task 1 (Some 1)))"
    "fields_ok ?same" "start_of ?same < end_of ?same"
    by (simp_all add: tasks_key_def ex_defs req_defs)
  have h2: "req_taskId ?other = Some (row_id (ex_task 1 (Some 1)))"
    "fields_ok ?other" "start_of ?other < end_of ?other"
    by (simp_all add: ex_defs req_defs)
  have h3: "tasks_key (ex_db None [?a])" "ex_task 1 None \<in> set (tasks (ex_db None [?a]))"
    "row_active (ex_task 1 None) = 1"
    "req_taskId ?same = Some (row_id (ex_task 1 None))"
    by (simp_all add: tasks_key_def ex_defs req_defs)
  have v: "max_volunteers (ex_task 1 (Some 1)) = Some 1" "max_volunteers (ex_task 1 None) = None"
    "distinct [?a]" "int (length [?a]) = 1"
    "?a \<in> set (appointments (ex_db (Some 1) [?a]))"
    "task_id ?a = row_id (ex_task 1 (Some 1))" "date ?a = date_of ?same"
    "overlaps (start_of ?same) (end_of ?same) ?a"
    "overlaps ''10:00'' ''11:00'' ?a"
    "overlapping (ex_db (Some 1) [?a]) (row_id (ex_task 1 (Some 1))) (date_of ?other)
       (start_of ?other) (end_of ?other) = []"
    by (simp_all add: ex_defs req_defs overlaps_def overlapping_def)
  show ?thesis
    using booking_capacity [OF h1, of 1 "[?a]" ex_now]
      booking_capacity [OF h1(1-3) h2, of 1 "[]" ex_now]
      booking_capacity [OF h3 h1(5,6), of 1 "[]" ex_now]
      h1 h3 v
    by simp
qed

text \<open>
  C1 as stated fails in its second part, a booking on a different date being admitted
  whatever the count on the first date: a task of capacity 0 with no appointment at all
  refuses a booking on every date, and a task of capacity 1 with one appointment
  09:00-10:00 on 2025-08-20 and one on 2025-08-21 refuses the same window on 2025-08-21.
\<close>

theorem booking_capacity_counterexample:
  "api_appointments_create ex_now (ex_db (Some 0) []) (ex_req ''2025-08-21'' ''09:00'' ''10:00'')
     = ((409, Error ''That time slot is full.''), ex_db (Some 0) [])
   \<and> ''2025-08-21'' \<noteq> ''2025-08-20''
   \<and> api_appointments_create ex_now
         (ex_db (Some 1) [ex_appt 1 ''2025-08-20'' ''09:00'' ''10:00'',
                          ex_appt 2 ''2025-08-21'' ''09:00'' ''10:00''])
         (ex_req ''2025-08-21'' ''09:00'' ''10:00'')
     = ((409, Error ''That time slot is full.''),
        ex_db (Some 1) [ex_appt 1 ''2025-08-20'' ''09:00'' ''10:00'',
                        ex_appt 2 ''2025-08-21'' ''09:00'' ''10:00''])"
  by (simp add: api_appointments_create_def num_overlap_def fetchone_def Let_def ex_defs req_defs)




text \<open>
  C4 (as amended). The booking handler checks the request before it looks the task up:
  a request with a missing field is answered 400; a request with all fields and
  \<open>startTime >= endTime\<close> is answered 400 whatever the task id; and only a request with
  all fields, \<open>startTime < endTime\<close> and a task id in the range of the store's
  integers is answered 404 when no task with that id is active. Each of these answers
  leaves the store unchanged.
\<close>

theorem booking_check_order:
  "(\<not> fields_ok data \<longrightarrow>
      api_appointments_create now d data = ((400, Error ''Missing fields''), d))
   \<and> (fields_ok data \<and> end_of data \<le> start_of data \<longrightarrow>
      api_appointments_create now d data =
        ((400, Error ''End time must be after start time''), d))
   \<and> (fields_ok data \<and> start_of data < end_of data \<and> req_taskId data = Some t \<and> int64 t
        \<and> (\<forall>r\<in>set (tasks d). row_id r = t \<longrightarrow> row_active r \<noteq> 1) \<longrightarrow>
      api_appointments_create now d data = ((404, Error ''Task not found or inactive''), d))
   \<and> (fst (fst (api_appointments_create now d data)) = 404 \<longrightarrow>
      fields_ok data \<and> start_of data < end_of data)"
proof (intro conjI impI)
  assume "\<not> fields_ok data"
  then show "api_appointments_create now d data = ((400, Error ''Missing fields''), d)"
    by (rule booking_missing)
next
  assume "fields_ok data \<and> end_of data \<le> start_of data"
  then show "api_appointments_create now d data =
      ((400, Error ''End time must be after start time''), d)"
    by (simp add: booking_order)
next
  assume "fields_ok data \<and> start_of data < end_of data \<and> req_taskId data = Some t \<and> int64 t
        \<and> (\<forall>r\<in>set (tasks d). row_id r = t \<longrightarrow> row_active r \<noteq> 1)"
  then show "api_appointments_create now d data =
      ((404, Error ''Task not found or inactive''), d)"
    by (simp add: booking_not_found no_active_task)
next
  assume "fst (fst (api_appointments_create now d data)) = 404"
  then show "fields_ok data" "start_of data < end_of data"
    by (simp_all add: booking_status_cases)
qed

theorem booking_check_order_witness:
  "\<not> fields_ok (ex_req ''2025-08-20'' ''09:00'' [])
   \<and> api_appointments_create ex_now init_db (ex_req ''2025-08-20'' ''09:00'' []) =
       ((400, Error ''Missing fields''), init_db)
   \<and> fields_ok (ex_req ''2025-08-20'' ''10:00'' ''09:00'')
   \<and> end_of (ex_req ''2025-08-20'' ''10:00'' ''09:00'') \<le> start_of (ex_req ''2025-08-20'' ''10:00'' ''09:00'')
   \<and> api_appointments_create ex_now (ex_db None []) (ex_req ''2025-08-20'' ''10:00'' ''09:00'') =
       ((400, Error ''End time must be after start time''), ex_db None [])
   \<and> fields_ok (ex_req ''2025-08-20'' ''09:00'' ''10:00'')
   \<and> start_of (ex_req ''2025-08-20'' ''09:00'' ''10:00'') < end_of (ex_req ''2025-08-20'' ''09:00'' ''10:00'')
   \<and> req_taskId (ex_req ''2025-08-20'' ''09:00'' ''10:00'') = Some 1
   \<and> int64 1
   \<and> tasks init_db = []
   \<and> api_appointments_create ex_now init_db (ex_req ''2025-08-20'' ''09:00'' ''10:00'') =
       ((404, Error ''Task not found or inactive''), init_db)"
  using booking_check_order [of "ex_req ''2025-08-20'' ''09:00'' []" ex_now init_db 1]
    booking_check_order [of "ex_req ''2025-08-20'' ''10:00'' ''09:00''" ex_now "ex_db None []" 1]
    booking_check_order [of "ex_req ''2025-08-20'' ''09:00'' ''10:00''" ex_now init_db 1]
  by (simp add: ex_req_def req_defs init_db_def int64_def)

text \<open>
  C4 as stated fails: against the empty store, where no task exists, a booking with
  \<open>startTime = 10:00\<close> and \<open>endTime = 09:00\<close> is answered 400, not 404.
\<close>

theorem booking_check_order_counterexample:
  "tasks init_db = []
   \<and> api_appointments_create ex_now init_db (ex_req ''2025-08-20'' ''10:00'' ''09:00'') =
       ((400, Error ''End time must be after start time''), init_db)
   \<and> fst (fst (api_appointments_create ex_now init_db (ex_req ''2025-08-20'' ''10:00'' ''09:00'')))
       \<noteq> 404"
  by (simp add: api_appointments_create_def ex_req_def req_defs init_db_def)

text \<open>
  C10. For a stored, active task with \<open>maxVolunteers = 0\<close>, every booking request with
  valid fields and \<open>startTime < endTime\<close> is answered 409 and nothing is stored, whatever
  the appointments in the store: the count of overlaps is at least 0.
\<close>

theorem booking_zero_capacity:
  assumes "tasks_key d" and "task \<in> set (tasks d)" and "row_active task = 1"
    and "max_volunteers task = Some 0"
    and "req_taskId data = Some (row_id task)" and "fields_ok data"
    and "start_of data < end_of data"
  shows "api_appointments_create now d data = ((409, Error ''That time slot is full.''), d)"
  using assms by (intro booking_full [where n = 0]) simp_all

theorem booking_zero_capacity_witness:
  "tasks_key (ex_db (Some 0) [])
   \<and> ex_task 1 (Some 0) \<in> set (tasks (ex_db (Some 0) []))
   \<and> row_active (ex_task 1 (Some 0)) = 1
   \<and> max_volunteers (ex_task 1 (Some 0)) = Some 0
   \<and> req_taskId (ex_req ''2025-08-20'' ''09:00'' ''10:00'') = Some (row_id (ex_task 1 (Some 0)))
   \<and> fields_ok (ex_req ''2025-08-20'' ''09:00'' ''10:00'')
   \<and> start_of (ex_req ''2025-08-20'' ''09:00'' ''10:00'') < end_of (ex_req ''2025-08-20'' ''09:00'' ''10:00'')
   \<and> overlapping (ex_db (Some 0) []) 1 ''2025-08-20'' ''09:00'' ''10:00'' = []
   \<and> api_appointments_create ex_now (ex_db (Some 0) []) (ex_req ''2025-08-20'' ''09:00'' ''10:00'')
       = ((409, Error ''That time slot is full.''), ex_db (Some 0) [])"
proof -
  have h: "tasks_key (ex_db (Some 0) [])"
    "ex_task 1 (Some 0) \<in> set (tasks (ex_db (Some 0) []))"
    "row_active (ex_task 1 (Some 0)) = 1"
    "max_volunteers (ex_task 1 (Some 0)) = Some 0"
    "req_taskId (ex_req ''2025-08-20'' ''09:00'' ''10:00'') = Some (row_id (ex_task 1 (Some 0)))"
    "fields_ok (ex_req ''2025-08-20'' ''09:00'' ''10:00'')"
    "start_of (ex_req ''2025-08-20'' ''09:00'' ''10:00'') < end_of (ex_req ''2025-08-20'' ''09:00'' ''10:00'')"
    by (simp_all add: tasks_key_def ex_defs req_defs)
  have e: "overlapping (ex_db (Some 0) []) 1 ''2025-08-20'' ''09:00'' ''10:00'' = []"
    by (simp add: overlapping_def ex_db_def)
  show ?thesis using booking_zero_capacity [OF h, of ex_now] h e by simp
qed

section \<open>Creating and updating tasks\<close>

lemma row_to_task_eq: "row_to_task r = Inr (task_of r)"
  by (simp add: row_to_task_def decode_windows_total task_of_def)

lemma fetchone_id:
  "distinct (map f rows) \<Longrightarrow> r \<in> set rows \<Longrightarrow> fetchone (filter (\<lambda>x. f x = f r) rows) = Some r"
  using fetchone_key [of f rows r "\<lambda>_. True"] by simp

lemma fetchone_map: "fetchone (map g xs) = map_option g (fetchone xs)"
  by (simp add: fetchone_def split: list.splits)

lemma fetchone_SomeD: "fetchone xs = Some r \<Longrightarrow> r \<in> set xs"
  by (cases xs) (simp_all add: fetchone_def)

lemma fetchone_None: "(fetchone xs = None) = (xs = [])"
  by (simp add: fetchone_def split: list.splits)

lemma select_task_eq:
  "fetchone (filter (\<lambda>r. row_id r = i) (tasks d)) = Some r \<Longrightarrow>
   select_task i d = (200, TaskJson (task_of r))"
  by (simp add: select_task_def row_to_task_eq)

lemma filter_id_map_update:
  "filter (\<lambda>x. row_id x = i)
     (map (\<lambda>x. if row_id x = i then make_row (row_id x) title (created_at x) now data else x) rows)
   = map (\<lambda>x. make_row (row_id x) title (created_at x) now data) (filter (\<lambda>x. row_id x = i) rows)"
  by (induction rows) (auto simp: make_row_def)

lemma update_unauthorized:
  "\<not> require_admin sess \<Longrightarrow> api_admin_update now sess d i data = ((401, Error ''Unauthorized''), d)"
  by (simp add: api_admin_update_def)

lemma update_title_required:
  "require_admin sess \<Longrightarrow> title_of data = [] \<Longrightarrow>
   api_admin_update now sess d i data = ((400, Error ''Title is required''), d)"
  by (simp add: api_admin_update_def title_of_def)

lemma update_not_found:
  "require_admin sess \<Longrightarrow> title_of data \<noteq> [] \<Longrightarrow> \<forall>r\<in>set (tasks d). row_id r \<noteq> i \<Longrightarrow>
   api_admin_update now sess d i data = ((404, Error ''Task not found''), d)"
  by (simp add: api_admin_update_def title_of_def fetchone_None filter_empty_conv)

lemma update_found:
  assumes "require_admin sess" and "title_of data \<noteq> []"
    and "fetchone (filter (\<lambda>x. row_id x = i) (tasks d)) = Some r"
  shows "api_admin_update now sess d i data =
     ((200, TaskJson (task_of (make_row i (title_of data) (created_at r) now data))),
      d\<lparr>tasks := map (\<lambda>x. if row_id x = i
                           then make_row (row_id x) (title_of data) (created_at x) now data
                           else x) (tasks d)\<rparr>)"
proof -
  let ?d' = "d\<lparr>tasks := map (\<lambda>x. if row_id x = i
                           then make_row (row_id x) (title_of data) (created_at x) now data
                           else x) (tasks d)\<rparr>"
  from assms(3) have "r \<in> set (filter (\<lambda>x. row_id x = i) (tasks d))"
    by (rule fetchone_SomeD)
  then have id: "row_id r = i" by simp
  have "fetchone (filter (\<lambda>x. row_id x = i) (tasks ?d')) =
        Some (make_row i (title_of data) (created_at r) now data)"
    using assms(3) id by (simp add: filter_id_map_update fetchone_map)
  then have "select_task i ?d' =
      (200, TaskJson (task_of (make_row i (title_of data) (created_at r) now data)))"
    by (rule select_task_eq)
  then show ?thesis
    using assms unfolding api_admin_update_def title_of_def Let_def by simp
qed

lemma fold_max_ge_init: "a \<le> fold max xs (a::int)"
proof (induction xs arbitrary: a)
  case Nil
  then show ?case by simp
next
  case (Cons y ys)
  have "a \<le> max y a" by simp
  also have "\<dots> \<le> fold max ys (max y a)" by (rule Cons.IH)
  finally show ?case by simp
qed

lemma fold_max_ge_elem: "x \<in> set xs \<Longrightarrow> x \<le> fold max xs (a::int)"
proof (induction xs arbitrary: a)
  case Nil
  then show ?case by simp
next
  case (Cons y ys)
  show ?case
  proof (cases "x = y")
    case True
    have "y \<le> max y a" by simp
    also have "\<dots> \<le> fold max ys (max y a)" by (rule fold_max_ge_init)
    finally show ?thesis using True by simp
  next
    case False
    with Cons show ?thesis by simp
  qed
qed

lemma next_id_fresh: "next_id seq ids \<notin> set ids"
proof
  assume "next_id seq ids \<in> set ids"
  then have "next_id seq ids \<le> fold max ids (max seq 0)" by (rule fold_max_ge_elem)
  then show False by (simp add: next_id_def)
qed


lemma tasks_public_eq:
  "api_tasks_public d =
     (200, TaskList (map task_of (order_by_id_desc (filter (\<lambda>r. row_active r = 1) (tasks d)))))"
proof -
  have "sequence (map row_to_task (order_by_id_desc (filter (\<lambda>r. row_active r = 1) (tasks d)))) =
        Inr (map task_of (order_by_id_desc (filter (\<lambda>r. row_active r = 1) (tasks d))))"
    by (rule sequence_map_Inr) (rule row_to_task_eq)
  then show ?thesis by (simp add: api_tasks_public_def)
qed

lemma public_id_iff:
  "(i \<in> set (map t_id (map task_of (order_by_id_desc (filter (\<lambda>r. row_active r = 1) rows))))) =
     (\<exists>r\<in>set rows. row_id r = i \<and> row_active r = 1)"
  by (auto simp: order_by_id_desc_def task_of_def)

lemma next_id_fresh_row:
  assumes "r \<in> set rows"
  shows "f r \<noteq> next_id seq (map f rows)"
proof
  assume eq: "f r = next_id seq (map f rows)"
  have "f r \<in> set (map f rows)" using assms by simp
  with eq show False using next_id_fresh [of seq "map f rows"] by simp
qed

lemma create_ok:
  assumes "require_admin sess" and "title_of data \<noteq> []"
  shows "api_admin_create now sess d data =
     ((201, TaskJson (task_of (make_row (next_id (tasks_seq d) (map row_id (tasks d)))
                                (title_of data) now now data))),
      d\<lparr>tasks := tasks d @ [make_row (next_id (tasks_seq d) (map row_id (tasks d)))
                              (title_of data) now now data],
        tasks_seq := next_id (tasks_seq d) (map row_id (tasks d))\<rparr>)"
proof -
  let ?i = "next_id (tasks_seq d) (map row_id (tasks d))"
  let ?new = "make_row ?i (title_of data) now now data"
  let ?d' = "d\<lparr>tasks := tasks d @ [?new], tasks_seq := ?i\<rparr>"
  have "filter (\<lambda>x. row_id x = ?i) (tasks d) = []"
    by (simp add: filter_empty_conv next_id_fresh_row)
  moreover have "row_id ?new = ?i" by (simp add: make_row_def)
  ultimately have "fetchone (filter (\<lambda>x. row_id x = ?i) (tasks ?d')) = Some ?new"
    by (simp add: fetchone_def)
  then have "select_task ?i ?d' = (200, TaskJson (task_of ?new))"
    by (rule select_task_eq)
  then show ?thesis
    using assms unfolding api_admin_create_def title_of_def Let_def by simp
qed

lemma create_failed:
  "\<not> (require_admin sess \<and> title_of data \<noteq> []) \<Longrightarrow>
   snd (api_admin_create now sess d data) = d \<and> fst (fst (api_admin_create now sess d data)) \<noteq> 201"
  by (auto simp: api_admin_create_def title_of_def)

lemma task_of_make_row_active: "t_active (task_of (make_row i title c u data)) = truthy (in_active data)"
  by (simp add: task_of_def make_row_def active_of_def)

lemma create_listed:
  assumes "require_admin sess" and "title_of data \<noteq> []"
  shows "(next_id (tasks_seq d) (map row_id (tasks d))
            \<in> set (map t_id (map task_of (order_by_id_desc
                 (filter (\<lambda>r. row_active r = 1) (tasks (snd (api_admin_create now sess d data))))))))
         = truthy (in_active data)"
  unfolding public_id_iff create_ok [OF assms]
  by (auto simp: make_row_def active_of_def next_id_fresh_row)

lemma updated_active:
  "(\<exists>y\<in>set (map (\<lambda>x. if row_id x = i then make_row (row_id x) t (created_at x) now data else x)
                 rows). row_id y = i \<and> row_active y = 1) =
   ((\<exists>x\<in>set rows. row_id x = i) \<and> truthy (in_active data))"
  by (induction rows) (auto simp: make_row_def active_of_def)

lemma update_listed:
  assumes "require_admin sess" and "title_of data \<noteq> []"
    and "r \<in> set (tasks d)" and "row_id r = i"
  shows "(i \<in> set (map t_id (map task_of (order_by_id_desc
                 (filter (\<lambda>r. row_active r = 1) (tasks (snd (api_admin_update now sess d i data))))))))
         = truthy (in_active data)"
proof -
  from assms(3,4) have ex: "\<exists>x\<in>set (tasks d). row_id x = i" by blast
  then have "filter (\<lambda>x. row_id x = i) (tasks d) \<noteq> []"
    by (simp add: filter_empty_conv)
  then obtain r0 where "fetchone (filter (\<lambda>x. row_id x = i) (tasks d)) = Some r0"
    by (cases "filter (\<lambda>x. row_id x = i) (tasks d)") (simp_all add: fetchone_def)
  note found = update_found [OF assms(1,2) this]
  have "tasks (snd (api_admin_update now sess d i data)) =
      map (\<lambda>x. if row_id x = i then make_row (row_id x) (title_of data) (created_at x) now data
               else x) (tasks d)"
    unfolding found by simp
  then show ?thesis
    unfolding public_id_iff by (simp only: updated_active ex simp_thms)
qed

lemma update_map_key:
  assumes "tasks_key d" and "r \<in> set (tasks d)" and "row_id r = i"
  shows "map (\<lambda>x. if row_id x = i then make_row (row_id x) t (created_at x) now data else x) (tasks d)
       = map (\<lambda>x. if x = r then make_row i t (created_at r) now data else x) (tasks d)"
proof (rule map_cong [OF refl])
  fix x assume "x \<in> set (tasks d)"
  with assms have "(row_id x = i) = (x = r)"
    unfolding tasks_key_def by (auto simp: distinct_map dest: inj_onD)
  with assms(3) show "(if row_id x = i then make_row (row_id x) t (created_at x) now data else x) =
        (if x = r then make_row i t (created_at r) now data else x)"
    by auto
qed

lemmas ex_defs2 = ex_now_def ex_task_def ex_db_def ex_sess_def ex_input_def

text \<open>
  C7 (as amended). For a signed-in administrator, an input whose title is not empty
  after trimming and an id in the range of the store's integers: if a task with the id
  exists and the capacity and the slot duration of the input are in that range too,
  update answers 200; the stored record of
  that id gets every column but \<open>id\<close> and \<open>created_at\<close> from the input (title and
  description trimmed, the slot duration defaulted, the type normalized, the lists
  encoded, \<open>active\<close> as 0 or 1), \<open>updated_at\<close> is the current time, \<open>id\<close> and
  \<open>created_at\<close> are as before, no other record changes, and the answer is the decoded
  form of the stored record; if no task has the id, update answers 404 and the store is
  unchanged. An input whose title is empty after trimming is answered 400, and a request
  without a session 401, whether or not the id exists; the store is unchanged then too.
\<close>

theorem update_task:
  "(require_admin sess \<and> title_of data \<noteq> [] \<and> tasks_key d \<and> r \<in> set (tasks d) \<and> row_id r = i
      \<and> int64 i \<and> storable data \<longrightarrow>
      (\<exists>t stored.
         stored = \<lparr>row_id = i,
                   row_title = title_of data,
                   row_description = Some (strip (or_empty (in_description data))),
                   max_volunteers = in_maxVolunteers data,
                   slot_duration_mins = Some (slot_mins_of (in_slotDurationMins data)),
                   row_type = type_of (in_type data),
                   days_of_week = Some (to_csv (in_daysOfWeek data)),
                   time_windows = Some (parse_time_windows (in_timeWindows data)),
                   event_dates = Some (to_csv (in_eventDates data)),
                   row_active = active_of (in_active data),
                   created_at = created_at r,
                   updated_at = now\<rparr>
         \<and> api_admin_update now sess d i data =
             ((200, TaskJson t), d\<lparr>tasks := map (\<lambda>x. if x = r then stored else x) (tasks d)\<rparr>)
         \<and> row_to_task stored = Inr t
         \<and> t_id t = i \<and> createdAt t = created_at r \<and> updatedAt t = now))
   \<and> (require_admin sess \<and> title_of data \<noteq> [] \<and> int64 i
        \<and> (\<forall>r\<in>set (tasks d). row_id r \<noteq> i) \<longrightarrow>
        api_admin_update now sess d i data = ((404, Error ''Task not found''), d))
   \<and> (require_admin sess \<and> title_of data = [] \<longrightarrow>
        api_admin_update now sess d i data = ((400, Error ''Title is required''), d))
   \<and> (\<not> require_admin sess \<longrightarrow>
        api_admin_update now sess d i data = ((401, Error ''Unauthorized''), d))"
proof (intro conjI impI)
  assume h: "require_admin sess \<and> title_of data \<noteq> [] \<and> tasks_key d \<and> r \<in> set (tasks d) \<and> row_id r = i
      \<and> int64 i \<and> storable data"
  let ?stored = "make_row i (title_of data) (created_at r) now data"
  from h have "fetchone (filter (\<lambda>x. row_id x = i) (tasks d)) = Some r"
    using fetchone_id [of row_id "tasks d" r] by (auto simp: tasks_key_def)
  with h have "api_admin_update now sess d i data =
      ((200, TaskJson (task_of ?stored)),
       d\<lparr>tasks := map (\<lambda>x. if row_id x = i
                            then make_row (row_id x) (title_of data) (created_at x) now data
                            else x) (tasks d)\<rparr>)"
    by (intro update_found) simp_all
  moreover have "map (\<lambda>x. if row_id x = i
                          then make_row (row_id x) (title_of data) (created_at x) now data
                          else x) (tasks d) =
      map (\<lambda>x. if x = r then ?stored else x) (tasks d)"
    using h by (intro update_map_key) simp_all
  ultimately have "api_admin_update now sess d i data =
      ((200, TaskJson (task_of ?stored)),
       d\<lparr>tasks := map (\<lambda>x. if x = r then ?stored else x) (tasks d)\<rparr>)"
    by simp
  moreover have "row_to_task ?stored = Inr (task_of ?stored)" by (rule row_to_task_eq)
  moreover have "t_id (task_of ?stored) = i \<and> createdAt (task_of ?stored) = created_at r
      \<and> updatedAt (task_of ?stored) = now"
    by (simp add: task_of_def make_row_def)
  ultimately show "\<exists>t stored.
         stored = \<lparr>row_id = i,
                   row_title = title_of data,
                   row_description = Some (strip (or_empty (in_description data))),
                   max_volunteers = in_maxVolunteers data,
                   slot_duration_mins = Some (slot_mins_of (in_slotDurationMins data)),
                   row_type = type_of (in_type data),
                   days_of_week = Some (to_csv (in_daysOfWeek data)),
                   time_windows = Some (parse_time_windows (in_timeWindows data)),
                   event_dates = Some (to_csv (in_eventDates data)),
                   row_active = active_of (in_active data),
                   created_at = created_at r,
                   updated_at = now\<rparr>
         \<and> api_admin_update now sess d i data =
             ((200, TaskJson t), d\<lparr>tasks := map (\<lambda>x. if x = r then stored else x) (tasks d)\<rparr>)
         \<and> row_to_task stored = Inr t
         \<and> t_id t = i \<and> createdAt t = created_at r \<and> updatedAt t = now"
    unfolding make_row_def by blast
next
  assume "require_admin sess \<and> title_of data \<noteq> [] \<and> int64 i
        \<and> (\<forall>r\<in>set (tasks d). row_id r \<noteq> i)"
  then show "api_admin_update now sess d i data = ((404, Error ''Task not found''), d)"
    by (simp add: update_not_found)
next
  assume "require_admin sess \<and> title_of data = []"
  then show "api_admin_update now sess d i data = ((400, Error ''Title is required''), d)"
    by (simp add: update_title_required)
next
  assume "\<not> require_admin sess"
  then show "api_admin_update now sess d i data = ((401, Error ''Unauthorized''), d)"
    by (rule update_unauthorized)
qed

text \<open>
  The theorem at the store with the one task 1: an update of task 1, an update of the
  absent task 2, an update with a blank title, and an update without a session.
\<close>

theorem update_task_witness:
  "require_admin ex_sess
   \<and> title_of (ex_input ''Food drive'' (JBool True)) \<noteq> []
   \<and> tasks_key (ex_db (Some 3) [])
   \<and> ex_task 1 (Some 3) \<in> set (tasks (ex_db (Some 3) []))
   \<and> row_id (ex_task 1 (Some 3)) = 1
   \<and> int64 1 \<and> int64 2
   \<and> storable (ex_input ''Food drive'' (JBool True))
   \<and> api_admin_update ''2025-09-01T08:00:00'' ex_sess (ex_db (Some 3) []) 1
        (ex_input ''Food drive'' (JBool True)) =
       ((200, TaskJson \<lparr>t_id = 1, t_title = ''Food drive'', t_description = ''Sorting donations'',
                        maxVolunteers = Some 5, slotDurationMins = Some 60, t_type = ''event'',
                        daysOfWeek = [], timeWindows = [\<lparr>w_start = ''09:00'', w_end = ''12:00''\<rparr>],
                        eventDates = [''2025-08-20''], t_active = True,
                        createdAt = ex_now, updatedAt = ''2025-09-01T08:00:00''\<rparr>),
        (ex_db (Some 3) [])
          \<lparr>tasks := [\<lparr>row_id = 1, row_title = ''Food drive'',
                      row_description = Some ''Sorting donations'',
                      max_volunteers = Some 5, slot_duration_mins = Some 60,
                      row_type = ''event'', days_of_week = Some [],
                      time_windows = Some ''09:00-12:00'', event_dates = Some ''2025-08-20'',
                      row_active = 1, created_at = ex_now,
                      updated_at = ''2025-09-01T08:00:00''\<rparr>]\<rparr>)
   \<and> api_admin_update ''2025-09-01T08:00:00'' ex_sess (ex_db (Some 3) []) 2
        (ex_input ''Food drive'' (JBool True)) =
       ((404, Error ''Task not found''), ex_db (Some 3) [])
   \<and> title_of (ex_input ''  '' (JBool True)) = []
   \<and> api_admin_update ''2025-09-01T08:00:00'' ex_sess (ex_db (Some 3) []) 1
        (ex_input ''  '' (JBool True)) =
       ((400, Error ''Title is required''), ex_db (Some 3) [])
   \<and> \<not> require_admin \<lparr>sess_admin_id = None, sess_admin_email = None\<rparr>
   \<and> api_admin_update ''2025-09-01T08:00:00'' \<lparr>sess_admin_id = None, sess_admin_email = None\<rparr>
        (ex_db (Some 3) []) 1 (ex_input ''Food drive'' (JBool True)) =
       ((401, Error ''Unauthorized''), ex_db (Some 3) [])"
proof -
  let ?now = "''2025-09-01T08:00:00''"
  let ?d = "ex_db (Some 3) []"
  let ?data = "ex_input ''Food drive'' (JBool True)"
  have h: "require_admin ex_sess" "title_of ?data \<noteq> []" "tasks_key ?d"
    "ex_task 1 (Some 3) \<in> set (tasks ?d)" "row_id (ex_task 1 (Some 3)) = 1"
    "\<forall>r\<in>set (tasks ?d). row_id r \<noteq> 2"
    "title_of (ex_input ''  '' (JBool True)) = []"
    "\<not> require_admin \<lparr>sess_admin_id = None, sess_admin_email = None\<rparr>"
    "int64 1" "int64 2" "storable ?data"
    by (simp_all add: require_admin_def title_of_def tasks_key_def ex_defs2 or_empty_def
          strip_def isspace_def int64_def storable_def slot_mins_of_def)
  have enc: "strip (or_empty (in_description ?data)) = ''Sorting donations''"
    "in_maxVolunteers ?data = Some 5"
    "slot_mins_of (in_slotDurationMins ?data) = 60"
    "type_of (in_type ?data) = ''event''"
    "to_csv (in_daysOfWeek ?data) = []"
    "parse_time_windows (in_timeWindows ?data) = ''09:00-12:00''"
    "to_csv (in_eventDates ?data) = ''2025-08-20''"
    "active_of (in_active ?data) = 1"
    "title_of ?data = ''Food drive''"
    by (simp_all add: ex_input_def or_empty_def strip_def isspace_def slot_mins_of_def
          type_of_def to_csv_def parse_time_windows_def encode_window_def active_of_def
          title_of_def)
  have dec: "row_to_task \<lparr>row_id = 1, row_title = ''Food drive'',
                      row_description = Some ''Sorting donations'',
                      max_volunteers = Some 5, slot_duration_mins = Some 60,
                      row_type = ''event'', days_of_week = Some [],
                      time_windows = Some ''09:00-12:00'', event_dates = Some ''2025-08-20'',
                      row_active = 1, created_at = ex_now,
                      updated_at = ?now\<rparr> =
      Inr \<lparr>t_id = 1, t_title = ''Food drive'', t_description = ''Sorting donations'',
                        maxVolunteers = Some 5, slotDurationMins = Some 60, t_type = ''event'',
                        daysOfWeek = [], timeWindows = [\<lparr>w_start = ''09:00'', w_end = ''12:00''\<rparr>],
                        eventDates = [''2025-08-20''], t_active = True,
                        createdAt = ex_now, updatedAt = ?now\<rparr>"
    by (simp add: row_to_task_eq task_of_def decode_csv_def windows_of_def or_empty_def
          before_sep_def after_sep_def)
  have c: "created_at (ex_task 1 (Some 3)) = ex_now" "tasks ?d = [ex_task 1 (Some 3)]"
    by (simp_all add: ex_task_def ex_db_def)
  show ?thesis
    using update_task [of ex_sess ?data ?d "ex_task 1 (Some 3)" 1 ?now]
      update_task [of ex_sess ?data ?d "ex_task 1 (Some 3)" 2 ?now]
      update_task [of ex_sess "ex_input ''  '' (JBool True)" ?d "ex_task 1 (Some 3)" 1 ?now]
      update_task [of "\<lparr>sess_admin_id = None, sess_admin_email = None\<rparr>" ?data ?d
        "ex_task 1 (Some 3)" 1 ?now]
      h enc dec c
    by simp
qed

text \<open>
  C7 as stated fails for an id that is not in the store when the title is blank: the
  title is checked before the id is looked up, and the answer is 400, not 404.
\<close>

theorem update_task_counterexample:
  "require_admin ex_sess
   \<and> tasks init_db = []
   \<and> api_admin_update ex_now ex_sess init_db 7 (ex_input ''  '' (JBool True)) =
       ((400, Error ''Title is required''), init_db)
   \<and> fst (fst (api_admin_update ex_now ex_sess init_db 7 (ex_input ''  '' (JBool True)))) \<noteq> 404"
  by (simp add: api_admin_update_def require_admin_def ex_sess_def ex_input_def init_db_def
        or_empty_def strip_def isspace_def)

text \<open>
  C9. For a signed-in administrator and an input whose title is not empty after
  trimming and whose capacity and slot duration are in the range of the store's
  integers, create answers 201 and update of an existing id in that range answers 200;
  the record
  stored under the task's id has \<open>active = 1\<close> when the field \<open>active\<close> of the input is
  truthy and \<open>active = 0\<close> when it is absent or falsy; and the public listing that
  follows returns a task with that id exactly when the field is truthy.
\<close>

theorem active_flag_visibility:
  "(require_admin sess \<and> title_of data \<noteq> [] \<and> storable data \<longrightarrow>
      (\<exists>t d' out.
         api_admin_create now sess d data = ((201, TaskJson t), d')
         \<and> t_active t = truthy (in_active data)
         \<and> map row_active (filter (\<lambda>x. row_id x = t_id t) (tasks d')) =
             [if truthy (in_active data) then 1 else 0]
         \<and> api_tasks_public d' = (200, TaskList out)
         \<and> (t_id t \<in> set (map t_id out)) = truthy (in_active data)))
   \<and> (require_admin sess \<and> title_of data \<noteq> [] \<and> r \<in> set (tasks d) \<and> row_id r = i
        \<and> int64 i \<and> storable data \<longrightarrow>
      (\<exists>t d' out.
         api_admin_update now sess d i data = ((200, TaskJson t), d')
         \<and> t_id t = i \<and> t_active t = truthy (in_active data)
         \<and> set (map row_active (filter (\<lambda>x. row_id x = i) (tasks d'))) =
             {if truthy (in_active data) then 1 else 0}
         \<and> api_tasks_public d' = (200, TaskList out)
         \<and> (i \<in> set (map t_id out)) = truthy (in_active data)))"
proof (intro conjI impI)
  assume h: "require_admin sess \<and> title_of data \<noteq> [] \<and> storable data"
  let ?i = "next_id (tasks_seq d) (map row_id (tasks d))"
  let ?new = "make_row ?i (title_of data) now now data"
  let ?d' = "d\<lparr>tasks := tasks d @ [?new], tasks_seq := ?i\<rparr>"
  let ?out = "map task_of (order_by_id_desc (filter (\<lambda>r. row_active r = 1) (tasks ?d')))"
  from h have ok: "api_admin_create now sess d data = ((201, TaskJson (task_of ?new)), ?d')"
    by (simp add: create_ok)
  have id: "t_id (task_of ?new) = ?i" by (simp add: task_of_def make_row_def)
  have "filter (\<lambda>x. row_id x = ?i) (tasks d) = []"
    by (simp add: filter_empty_conv next_id_fresh_row)
  then have stored: "map row_active (filter (\<lambda>x. row_id x = t_id (task_of ?new)) (tasks ?d')) =
      [if truthy (in_active data) then 1 else 0]"
    unfolding id by (simp add: make_row_def active_of_def)
  have listed: "(t_id (task_of ?new) \<in> set (map t_id ?out)) = truthy (in_active data)"
    using h create_listed [of sess data d now] unfolding id ok by simp
  show "\<exists>t d' out.
         api_admin_create now sess d data = ((201, TaskJson t), d')
         \<and> t_active t = truthy (in_active data)
         \<and> map row_active (filter (\<lambda>x. row_id x = t_id t) (tasks d')) =
             [if truthy (in_active data) then 1 else 0]
         \<and> api_tasks_public d' = (200, TaskList out)
         \<and> (t_id t \<in> set (map t_id out)) = truthy (in_active data)"
    by (rule exI [of _ "task_of ?new"], rule exI [of _ ?d'], rule exI [of _ ?out])
      (intro conjI ok stored listed task_of_make_row_active tasks_public_eq)
next
  assume h: "require_admin sess \<and> title_of data \<noteq> [] \<and> r \<in> set (tasks d) \<and> row_id r = i
        \<and> int64 i \<and> storable data"
  let ?g = "\<lambda>x. if row_id x = i then make_row (row_id x) (title_of data) (created_at x) now data
                else x"
  let ?d' = "d\<lparr>tasks := map ?g (tasks d)\<rparr>"
  let ?out = "map task_of (order_by_id_desc (filter (\<lambda>r. row_active r = 1) (tasks ?d')))"
  from h have ne: "filter (\<lambda>x. row_id x = i) (tasks d) \<noteq> []"
    by (auto simp: filter_empty_conv)
  then obtain r0 where r0: "fetchone (filter (\<lambda>x. row_id x = i) (tasks d)) = Some r0"
    by (cases "filter (\<lambda>x. row_id x = i) (tasks d)") (simp_all add: fetchone_def)
  let ?t = "task_of (make_row i (title_of data) (created_at r0) now data)"
  from h r0 have ok: "api_admin_update now sess d i data = ((200, TaskJson ?t), ?d')"
    by (intro update_found) simp_all
  have t: "t_id ?t = i \<and> t_active ?t = truthy (in_active data)"
    by (simp add: task_of_def make_row_def active_of_def)
  have "map row_active (filter (\<lambda>x. row_id x = i) (tasks ?d')) =
      map (\<lambda>x. if truthy (in_active data) then 1 else 0) (filter (\<lambda>x. row_id x = i) (tasks d))"
    by (simp add: filter_id_map_update make_row_def active_of_def)
  with ne have stored: "set (map row_active (filter (\<lambda>x. row_id x = i) (tasks ?d'))) =
             {if truthy (in_active data) then 1 else 0}"
    by (cases "filter (\<lambda>x. row_id x = i) (tasks d)") auto
  have listed: "(i \<in> set (map t_id ?out)) = truthy (in_active data)"
    using h update_listed [of sess data r d i now] unfolding ok by simp
  show "\<exists>t d' out.
         api_admin_update now sess d i data = ((200, TaskJson t), d')
         \<and> t_id t = i \<and> t_active t = truthy (in_active data)
         \<and> set (map row_active (filter (\<lambda>x. row_id x = i) (tasks d'))) =
             {if truthy (in_active data) then 1 else 0}
         \<and> api_tasks_public d' = (200, TaskList out)
         \<and> (i \<in> set (map t_id out)) = truthy (in_active data)"
    by (rule exI [of _ ?t], rule exI [of _ ?d'], rule exI [of _ ?out])
      (intro conjI ok conjunct1 [OF t] conjunct2 [OF t] stored listed tasks_public_eq)
qed

text \<open>
  The theorem at the store with the one task 1: a create without \<open>active\<close>, a create with
  \<open>active = "yes"\<close>, and an update of task 1 with \<open>active = 0\<close>.
\<close>

theorem active_flag_visibility_witness:
  "require_admin ex_sess
   \<and> title_of (ex_input ''Food drive'' JNull) \<noteq> []
   \<and> storable (ex_input ''Food drive'' JNull)
   \<and> storable (ex_input ''Food drive'' (JStr ''yes''))
   \<and> storable (ex_input ''Food drive'' (JInt 0))
   \<and> int64 1
   \<and> \<not> truthy JNull \<and> \<not> truthy (JInt 0) \<and> truthy (JStr ''yes'')
   \<and> (\<exists>t d' out.
        api_admin_create ex_now ex_sess (ex_db (Some 3) []) (ex_input ''Food drive'' JNull) =
          ((201, TaskJson t), d')
        \<and> \<not> t_active t \<and> api_tasks_public d' = (200, TaskList out)
        \<and> t_id t \<notin> set (map t_id out))
   \<and> (\<exists>t d' out.
        api_admin_create ex_now ex_sess (ex_db (Some 3) []) (ex_input ''Food drive'' (JStr ''yes'')) =
          ((201, TaskJson t), d')
        \<and> t_active t \<and> api_tasks_public d' = (200, TaskList out)
        \<and> t_id t \<in> set (map t_id out))
   \<and> ex_task 1 (Some 3) \<in> set (tasks (ex_db (Some 3) []))
   \<and> row_id (ex_task 1 (Some 3)) = 1
   \<and> (\<exists>t d' out.
        api_admin_update ex_now ex_sess (ex_db (Some 3) []) 1 (ex_input ''Food drive'' (JInt 0)) =
          ((200, TaskJson t), d')
        \<and> \<not> t_active t \<and> api_tasks_public d' = (200, TaskList out)
        \<and> 1 \<notin> set (map t_id out))"
proof -
  have h: "require_admin ex_sess" "title_of (ex_input ''Food drive'' a) \<noteq> []"
    "ex_task 1 (Some 3) \<in> set (tasks (ex_db (Some 3) []))" "row_id (ex_task 1 (Some 3)) = 1"
    "in_active (ex_input ''Food drive'' a) = a"
    "storable (ex_input ''Food drive'' a)" "int64 1" for a
    by (simp_all add: require_admin_def title_of_def ex_defs2 or_empty_def strip_def isspace_def
          int64_def storable_def slot_mins_of_def)
  have c1: "\<exists>t d' out.
        api_admin_create ex_now ex_sess (ex_db (Some 3) []) (ex_input ''Food drive'' JNull) =
          ((201, TaskJson t), d')
        \<and> \<not> t_active t \<and> api_tasks_public d' = (200, TaskList out)
        \<and> t_id t \<notin> set (map t_id out)"
    using active_flag_visibility [of ex_sess "ex_input ''Food drive'' JNull" ex_now
        "ex_db (Some 3) []" "ex_task 1 (Some 3)" 1] h
    by auto
  have c2: "\<exists>t d' out.
        api_admin_create ex_now ex_sess (ex_db (Some 3) []) (ex_input ''Food drive'' (JStr ''yes'')) =
          ((201, TaskJson t), d')
        \<and> t_active t \<and> api_tasks_public d' = (200, TaskList out)
        \<and> t_id t \<in> set (map t_id out)"
    using active_flag_visibility [of ex_sess "ex_input ''Food drive'' (JStr ''yes'')" ex_now
        "ex_db (Some 3) []" "ex_task 1 (Some 3)" 1] h
    by auto
  have c3: "\<exists>t d' out.
        api_admin_update ex_now ex_sess (ex_db (Some 3) []) 1 (ex_input ''Food drive'' (JInt 0)) =
          ((200, TaskJson t), d')
        \<and> \<not> t_active t \<and> api_tasks_public d' = (200, TaskList out)
        \<and> 1 \<notin> set (map t_id out)"
    using active_flag_visibility [of ex_sess "ex_input ''Food drive'' (JInt 0)" ex_now
        "ex_db (Some 3) []" "ex_task 1 (Some 3)" 1] h
    by auto
  show ?thesis using h c1 c2 c3 by simp
qed

section \<open>Encoding and decoding a task\<close>

lemma join_Cons: "join sep (x # xs) = (if xs = [] then x else x @ sep @ join sep xs)"
  by (cases xs) simp_all

lemma split_join:
  "xs \<noteq> [] \<Longrightarrow> list_all (\<lambda>x. c \<notin> set x) xs \<Longrightarrow> split c (join [c] xs) = xs"
proof (induction xs)
  case Nil
  then show ?case by simp
next
  case (Cons x xs)
  show ?case
  proof (cases "xs = []")
    case True
    with Cons.prems show ?thesis by (simp add: split_notin)
  next
    case False
    with Cons have "split c (join [c] xs) = xs" by simp
    with Cons.prems False show ?thesis by (simp add: join_Cons split_append)
  qed
qed

lemma decode_csv_to_csv:
  assumes "list_all token xs"
  shows "decode_csv (Some (to_csv (Some xs))) = xs"
proof (cases "xs = []")
  case True
  then show ?thesis by (simp add: decode_csv_def to_csv_def or_empty_def)
next
  case False
  from assms have ne: "filter (\<lambda>x. x \<noteq> []) xs = xs"
    by (induction xs) (simp_all add: token_def)
  from assms have "list_all (\<lambda>x. CHR '','' \<notin> set x) xs"
    by (induction xs) (simp_all add: token_def)
  with False have "split CHR '','' (join '','' xs) = xs" by (rule split_join)
  with ne show ?thesis by (simp add: decode_csv_def to_csv_def or_empty_def)
qed

lemma encode_window_plain:
  "plain s \<Longrightarrow> plain e \<Longrightarrow>
   encode_window \<lparr>wi_start = Some s, wi_end = Some e\<rparr> = [s @ ''-'' @ e]"
  by (simp add: encode_window_def plain_def or_empty_def)

lemma parse_time_windows_plain:
  assumes "list_all (\<lambda>w. time_text (w_start w) \<and> time_text (w_end w)) ws"
  shows "parse_time_windows
           (Some (map (\<lambda>w. \<lparr>wi_start = Some (w_start w), wi_end = Some (w_end w)\<rparr>) ws)) =
         join ''|'' (map (\<lambda>w. w_start w @ ''-'' @ w_end w) ws)"
proof -
  have "concat (map encode_window
          (map (\<lambda>w. \<lparr>wi_start = Some (w_start w), wi_end = Some (w_end w)\<rparr>) ws)) =
        map (\<lambda>w. w_start w @ ''-'' @ w_end w) ws"
    using assms by (induction ws) (simp_all add: encode_window_plain time_text_def)
  then show ?thesis by (simp add: parse_time_windows_def)
qed

lemma before_sep_append: "c \<notin> set s \<Longrightarrow> before_sep c (s @ c # r) = s"
  by (simp add: before_sep_def takeWhile_append)

lemma after_sep_append: "c \<notin> set s \<Longrightarrow> after_sep c (s @ c # r) = r"
  by (simp add: after_sep_def dropWhile_append)

lemma before_sep_notin: "c \<notin> set s \<Longrightarrow> before_sep c s = s"
  by (auto simp: before_sep_def)

lemma windows_of_join:
  assumes "list_all (\<lambda>w. time_text (w_start w) \<and> time_text (w_end w)) ws"
  shows "windows_of (join ''|'' (map (\<lambda>w. w_start w @ ''-'' @ w_end w) ws)) = ws"
proof (cases "ws = []")
  case True
  then show ?thesis by (simp add: windows_of_def)
next
  case False
  let ?frags = "map (\<lambda>w. w_start w @ ''-'' @ w_end w) ws"
  from assms have "list_all (\<lambda>x. CHR ''|'' \<notin> set x) ?frags"
    by (induction ws) (simp_all add: time_text_def)
  with False have sp: "split CHR ''|'' (join ''|'' ?frags) = ?frags"
    by (intro split_join) simp_all
  have keep: "filter (\<lambda>p. CHR ''-'' \<in> set p) ?frags = ?frags"
    by (induction ws) simp_all
  have "map (\<lambda>p. \<lparr>w_start = before_sep CHR ''-'' p,
                  w_end = before_sep CHR ''-'' (after_sep CHR ''-'' p)\<rparr>) ?frags = ws"
    using assms
    by (induction ws)
      (simp_all add: time_text_def before_sep_append after_sep_append before_sep_notin)
  with sp keep show ?thesis by (simp add: windows_of_def)
qed

lemma round_trip:
  assumes "round_trips t"
  shows "row_to_task (encode t) = Inr t"
proof -
  from assms obtain n where n: "slotDurationMins t = Some n" "n \<noteq> 0"
    by (auto simp: round_trips_def split: option.splits)
  from assms have ty: "type_of (JStr (t_type t)) = t_type t"
    by (auto simp: round_trips_def type_of_def)
  from assms have days: "decode_csv (Some (to_csv (Some (daysOfWeek t)))) = daysOfWeek t"
    and dates: "decode_csv (Some (to_csv (Some (eventDates t)))) = eventDates t"
    by (simp_all add: round_trips_def decode_csv_to_csv)
  from assms have w: "list_all (\<lambda>w. time_text (w_start w) \<and> time_text (w_end w)) (timeWindows t)"
    by (simp add: round_trips_def)
  have wins: "windows_of (parse_time_windows
      (Some (map (\<lambda>w. \<lparr>wi_start = Some (w_start w), wi_end = Some (w_end w)\<rparr>) (timeWindows t))))
      = timeWindows t"
    unfolding parse_time_windows_plain [OF w] by (rule windows_of_join [OF w])
  from assms have trim: "strip (t_title t) = t_title t" "strip (t_description t) = t_description t"
    by (simp_all add: round_trips_def)
  have "task_of (encode t) = t"
    by (simp add: task_of_def encode_def make_row_def as_input_def title_of_def or_empty_def
          slot_mins_of_def active_of_def n ty days dates wins trim)
  then show ?thesis by (simp add: row_to_task_eq)
qed

text \<open>
  C3 (as amended). Decoding the encoded record yields the task again,
  \<open>decode(encode(t)) = t\<close>, for every task \<open>t\<close> whose title and description are
  unchanged by trimming, whose slot duration is a number other than 0, whose type is
  \<open>recurring\<close> or \<open>event\<close>, whose \<open>daysOfWeek\<close> and \<open>eventDates\<close> entries are not empty
  and hold no comma, and whose window starts and ends are not empty, unchanged by
  trimming, and hold neither a dash nor a bar.
\<close>

theorem encode_decode_round_trip:
  "round_trips t \<Longrightarrow> row_to_task (encode t) = Inr t"
  by (rule round_trip)

text \<open>The theorem at a task with the window 09:00-12:00.\<close>

theorem encode_decode_round_trip_witness:
  "round_trips (ex_decoded ''09:00'')
   \<and> row_to_task (encode (ex_decoded ''09:00'')) = Inr (ex_decoded ''09:00'')"
proof -
  have h: "round_trips (ex_decoded ''09:00'')"
    by (simp add: round_trips_def ex_decoded_def token_def time_text_def plain_def
          strip_def isspace_def)
  show ?thesis using encode_decode_round_trip [OF h] h by simp
qed

text \<open>
  C3 as stated fails: a window start \<open>" 09:00"\<close> is not empty after trimming, the
  encoder stores it trimmed, and the decoded task has the start \<open>"09:00"\<close>.
\<close>

theorem encode_decode_round_trip_counterexample:
  "strip '' 09:00'' \<noteq> [] \<and> strip ''12:00'' \<noteq> []
   \<and> row_to_task (encode (ex_decoded '' 09:00'')) = Inr (ex_decoded ''09:00'')
   \<and> row_to_task (encode (ex_decoded '' 09:00'')) \<noteq> Inr (ex_decoded '' 09:00'')"
proof -
  have e: "encode (ex_decoded '' 09:00'') = encode (ex_decoded ''09:00'')"
    by (simp add: encode_def ex_decoded_def as_input_def make_row_def title_of_def
          parse_time_windows_def encode_window_def or_empty_def strip_def isspace_def)
  have "round_trips (ex_decoded ''09:00'')"
    by (simp add: round_trips_def ex_decoded_def token_def time_text_def plain_def
          strip_def isspace_def)
  then have "row_to_task (encode (ex_decoded ''09:00'')) = Inr (ex_decoded ''09:00'')"
    by (rule round_trip)
  moreover have "ex_decoded ''09:00'' \<noteq> ex_decoded '' 09:00''"
    by (simp add: ex_decoded_def)
  ultimately show ?thesis by (simp add: e strip_def isspace_def)
qed

section \<open>Login\<close>

lemma seeded_admins:
  "admins (seed_admin now init_db) =
     [\<lparr>admin_id = 1, email = ''admin@example.com'', password_hash = PwHash ''admin'',
       admin_created_at = now\<rparr>,
      \<lparr>admin_id = 2, email = ''admin'', password_hash = PwHash ''admin'',
       admin_created_at = now\<rparr>]"
  by (simp add: seed_admin_def ensure_def init_db_def next_id_def fetchone_def
        generate_password_hash_def Let_def)

lemma fetchone_order:
  assumes "\<forall>rows. set (result_order rows) = set rows"
  shows "rows = [] \<Longrightarrow> fetchone (result_order rows) = None"
    and "rows \<noteq> [] \<Longrightarrow> \<exists>r\<in>set rows. fetchone (result_order rows) = Some r"
proof -
  have s: "set (result_order rows) = set rows" using assms by simp
  show "rows = [] \<Longrightarrow> fetchone (result_order rows) = None"
    using s by (simp add: fetchone_def)
  assume "rows \<noteq> []"
  with s have "result_order rows \<noteq> []" by auto
  then obtain r rest where "result_order rows = r # rest" by (cases "result_order rows") auto
  with s show "\<exists>r\<in>set rows. fetchone (result_order rows) = Some r"
    by (auto simp: fetchone_def)
qed

lemma login_rows:
  "api_login result_order d sess data =
     (case fetchone (result_order (filter (candidate data) (admins d))) of
        None \<Rightarrow> ((401, LoginFailed ''Invalid credentials''), sess)
      | Some row \<Rightarrow>
          if check_password_hash (password_hash row) (or_empty (login_password data))
          then ((200, LoginOk (email row)),
                sess\<lparr>sess_admin_id := Some (admin_id row), sess_admin_email := Some (email row)\<rparr>)
          else ((401, LoginFailed ''Invalid credentials''), sess))"
proof -
  have "(if CHR ''@'' \<in> set (lower (strip (or_empty (login_email data))))
         then filter (\<lambda>r. email r = lower (strip (or_empty (login_email data)))) (admins d)
         else filter (\<lambda>r. email r = lower (strip (or_empty (login_email data)))
                 \<or> email r = lower (strip (or_empty (login_email data))) @ ''@example.com'') (admins d))
        = filter (candidate data) (admins d)"
    by (auto simp: candidate_def Let_def intro: filter_cong)
  then show ?thesis
    unfolding api_login_def Let_def by simp
qed

lemma login_wrong_password:
  assumes "\<forall>rows. set (result_order rows) = set rows"
    and "\<forall>r\<in>set (admins d). candidate data r \<longrightarrow>
           \<not> check_password_hash (password_hash r) (or_empty (login_password data))"
  shows "api_login result_order d sess data = ((401, LoginFailed ''Invalid credentials''), sess)"
proof (cases "filter (candidate data) (admins d) = []")
  case True
  then show ?thesis
    using fetchone_order(1) [OF assms(1) True] by (simp add: login_rows)
next
  case False
  then obtain r where r: "r \<in> set (filter (candidate data) (admins d))"
    "fetchone (result_order (filter (candidate data) (admins d))) = Some r"
    using fetchone_order(2) [OF assms(1) False] by blast
  with assms(2) have "\<not> check_password_hash (password_hash r) (or_empty (login_password data))"
    by simp
  with r(2) show ?thesis by (simp add: login_rows)
qed

lemma ex_login_password: "login_password (ex_login e p) = Some p"
  by (simp add: ex_login_def)

lemma candidate_admin:
  "candidate (ex_login ''admin'' p) r = (email r = ''admin'' \<or> email r = ''admin@example.com'')"
  "candidate (ex_login ''admin@example.com'' p) r = (email r = ''admin@example.com'')"
  by (simp_all add: candidate_def ex_login_def or_empty_def strip_def isspace_def lower_def
        lower_char_def Let_def)

text \<open>
  C8 (as amended). On the seeded database, whatever the order in which the engine yields
  the rows of a query: login with \<open>admin\<close> and password \<open>admin\<close> answers 200 and
  establishes a session, either of the account \<open>admin\<close> (id 2) or of the account
  \<open>admin@example.com\<close> (id 1), whichever of the two matching rows comes first, and the
  answer carries that account's email; login with \<open>admin@example.com\<close> and password
  \<open>admin\<close> answers 200 with the session of the account \<open>admin@example.com\<close>. On every
  database and for every identifier, a password that fails the check of every account
  the identifier is looked up as is answered 401 and the session stays as it was; on the
  seeded database that is every password but \<open>admin\<close>.
\<close>

theorem login_seeded_admin:
  assumes "\<forall>rows. set (result_order rows) = set rows"
  shows
    "(api_login result_order (seed_admin now init_db) sess
         \<lparr>login_email = Some ''admin'', login_password = Some ''admin''\<rparr> =
        ((200, LoginOk ''admin''),
         sess\<lparr>sess_admin_id := Some 2, sess_admin_email := Some ''admin''\<rparr>)
      \<or> api_login result_order (seed_admin now init_db) sess
         \<lparr>login_email = Some ''admin'', login_password = Some ''admin''\<rparr> =
        ((200, LoginOk ''admin@example.com''),
         sess\<lparr>sess_admin_id := Some 1, sess_admin_email := Some ''admin@example.com''\<rparr>))
     \<and> api_login result_order (seed_admin now init_db) sess
         \<lparr>login_email = Some ''admin@example.com'', login_password = Some ''admin''\<rparr> =
        ((200, LoginOk ''admin@example.com''),
         sess\<lparr>sess_admin_id := Some 1, sess_admin_email := Some ''admin@example.com''\<rparr>)
     \<and> ((\<forall>r\<in>set (admins d). candidate data r \<longrightarrow>
            \<not> check_password_hash (password_hash r) (or_empty (login_password data))) \<longrightarrow>
          api_login result_order d sess data = ((401, LoginFailed ''Invalid credentials''), sess))
     \<and> (or_empty (login_password data) \<noteq> ''admin'' \<longrightarrow>
          api_login result_order (seed_admin now init_db) sess data =
            ((401, LoginFailed ''Invalid credentials''), sess))"
proof (intro conjI impI)
  let ?r1 = "\<lparr>admin_id = 1, email = ''admin@example.com'', password_hash = PwHash ''admin'',
              admin_created_at = now\<rparr>"
  let ?r2 = "\<lparr>admin_id = 2, email = ''admin'', password_hash = PwHash ''admin'',
              admin_created_at = now\<rparr>"
  let ?bare = "\<lparr>login_email = Some ''admin'', login_password = Some ''admin''\<rparr>"
  let ?full = "\<lparr>login_email = Some ''admin@example.com'', login_password = Some ''admin''\<rparr>"
  have fb: "filter (candidate ?bare) (admins (seed_admin now init_db)) = [?r1, ?r2]"
    using candidate_admin(1) [of "''admin''"] by (simp add: seeded_admins ex_login_def)
  have ff: "filter (candidate ?full) (admins (seed_admin now init_db)) = [?r1]"
    using candidate_admin(2) [of "''admin''"] by (simp add: seeded_admins ex_login_def)
  obtain r where "r \<in> set [?r1, ?r2]" and "fetchone (result_order [?r1, ?r2]) = Some r"
    using fetchone_order(2) [OF assms, of "[?r1, ?r2]"] by blast
  then show "api_login result_order (seed_admin now init_db) sess ?bare =
        ((200, LoginOk ''admin''),
         sess\<lparr>sess_admin_id := Some 2, sess_admin_email := Some ''admin''\<rparr>)
      \<or> api_login result_order (seed_admin now init_db) sess ?bare =
        ((200, LoginOk ''admin@example.com''),
         sess\<lparr>sess_admin_id := Some 1, sess_admin_email := Some ''admin@example.com''\<rparr>)"
    by (auto simp: login_rows fb or_empty_def)
  obtain r' where "r' \<in> set [?r1]" and "fetchone (result_order [?r1]) = Some r'"
    using fetchone_order(2) [OF assms, of "[?r1]"] by blast
  then show "api_login result_order (seed_admin now init_db) sess ?full =
        ((200, LoginOk ''admin@example.com''),
         sess\<lparr>sess_admin_id := Some 1, sess_admin_email := Some ''admin@example.com''\<rparr>)"
    by (auto simp: login_rows ff or_empty_def)
next
  assume "\<forall>r\<in>set (admins d). candidate data r \<longrightarrow>
            \<not> check_password_hash (password_hash r) (or_empty (login_password data))"
  with assms show "api_login result_order d sess data =
      ((401, LoginFailed ''Invalid credentials''), sess)"
    by (rule login_wrong_password)
next
  assume "or_empty (login_password data) \<noteq> ''admin''"
  then have "\<forall>r\<in>set (admins (seed_admin now init_db)). candidate data r \<longrightarrow>
            \<not> check_password_hash (password_hash r) (or_empty (login_password data))"
    by (auto simp: seeded_admins)
  with assms show "api_login result_order (seed_admin now init_db) sess data =
      ((401, LoginFailed ''Invalid credentials''), sess)"
    by (rule login_wrong_password)
qed

text \<open>
  The theorem with the rows in the order of the index on \<open>email\<close>: the two logins, a
  wrong password, and an identifier that matches no account.
\<close>

theorem login_seeded_admin_witness:
  "(\<forall>rows. set (by_email_index rows) = set rows)
   \<and> api_login by_email_index (seed_admin ex_now init_db) no_session
        \<lparr>login_email = Some ''admin'', login_password = Some ''admin''\<rparr> =
       ((200, LoginOk ''admin''), \<lparr>sess_admin_id = Some 2, sess_admin_email = Some ''admin''\<rparr>)
   \<and> api_login by_email_index (seed_admin ex_now init_db) no_session
        \<lparr>login_email = Some ''admin@example.com'', login_password = Some ''admin''\<rparr> =
       ((200, LoginOk ''admin@example.com''),
        \<lparr>sess_admin_id = Some 1, sess_admin_email = Some ''admin@example.com''\<rparr>)
   \<and> or_empty (login_password (ex_login ''admin'' ''hunter2'')) \<noteq> ''admin''
   \<and> api_login by_email_index (seed_admin ex_now init_db) no_session (ex_login ''admin'' ''hunter2'') =
       ((401, LoginFailed ''Invalid credentials''), no_session)
   \<and> api_login by_email_index (seed_admin ex_now init_db) ex_sess (ex_login ''nobody'' ''admin'') =
       ((401, LoginFailed ''Invalid credentials''), ex_sess)"
proof -
  have h: "\<forall>rows. set (by_email_index rows) = set rows"
    by (simp add: by_email_index_def)
  have w: "or_empty (login_password (ex_login ''admin'' ''hunter2'')) \<noteq> ''admin''"
    by (simp add: ex_login_password or_empty_def)
  have n: "\<forall>r\<in>set (admins (seed_admin ex_now init_db)).
      candidate (ex_login ''nobody'' ''admin'') r \<longrightarrow>
      \<not> check_password_hash (password_hash r) (or_empty (login_password (ex_login ''nobody'' ''admin'')))"
    by (simp add: seeded_admins candidate_def ex_login_def or_empty_def strip_def isspace_def
          lower_def lower_char_def Let_def)
  have b: "api_login by_email_index (seed_admin ex_now init_db) no_session
        \<lparr>login_email = Some ''admin'', login_password = Some ''admin''\<rparr> \<noteq>
       ((200, LoginOk ''admin@example.com''),
        no_session\<lparr>sess_admin_id := Some 1, sess_admin_email := Some ''admin@example.com''\<rparr>)"
    using candidate_admin(1) [of "''admin''"]
    by (simp add: login_rows seeded_admins by_email_index_def fetchone_def
          no_session_def or_empty_def ex_login_def)
  show ?thesis
    using login_seeded_admin [OF h, of ex_now no_session "seed_admin ex_now init_db"
        "ex_login ''admin'' ''hunter2''"]
      login_seeded_admin [OF h, of ex_now ex_sess "seed_admin ex_now init_db"
        "ex_login ''nobody'' ''admin''"]
      h w n b
    by (simp add: no_session_def)
qed

text \<open>
  C8 as stated fails in its first part: with the rows in the order of the index on
  \<open>email\<close>, login with \<open>admin\<close> gives the session and the email of the account
  \<open>admin\<close>, and login with \<open>admin@example.com\<close> those of the other account.
\<close>

theorem login_seeded_admin_counterexample:
  "api_login by_email_index (seed_admin ex_now init_db) no_session (ex_login ''admin'' ''admin'') =
     ((200, LoginOk ''admin''), \<lparr>sess_admin_id = Some 2, sess_admin_email = Some ''admin''\<rparr>)
   \<and> api_login by_email_index (seed_admin ex_now init_db) no_session
        (ex_login ''admin@example.com'' ''admin'') =
     ((200, LoginOk ''admin@example.com''),
      \<lparr>sess_admin_id = Some 1, sess_admin_email = Some ''admin@example.com''\<rparr>)
   \<and> api_login by_email_index (seed_admin ex_now init_db) no_session (ex_login ''admin'' ''admin'')
       \<noteq> api_login by_email_index (seed_admin ex_now init_db) no_session
            (ex_login ''admin@example.com'' ''admin'')"
  by (simp add: login_rows candidate_admin seeded_admins by_email_index_def fetchone_def
        no_session_def or_empty_def ex_login_password)

section \<open>The primary key of the tasks\<close>

text \<open>
  The theorems about a stored task assume that no two tasks share an id. The empty
  database has the property and every operation that writes keeps it.
\<close>

lemma tasks_key_init: "tasks_key init_db"
  by (simp add: tasks_key_def init_db_def)

lemma tasks_key_create:
  assumes "tasks_key d"
  shows "tasks_key (snd (api_admin_create now sess d data))"
proof (cases "require_admin sess \<and> title_of data \<noteq> []")
  case True
  then show ?thesis
    using assms next_id_fresh [of "tasks_seq d" "map row_id (tasks d)"]
    by (simp add: create_ok tasks_key_def make_row_def)
next
  case False
  then show ?thesis using assms create_failed [of sess data now d] by simp
qed

lemma tasks_key_update:
  assumes "tasks_key d"
  shows "tasks_key (snd (api_admin_update now sess d i data))"
proof -
  have "row_id \<circ> (\<lambda>r. if row_id r = i
          then make_row (row_id r) t (created_at r) now data else r) = row_id" for t
    by (rule ext) (simp add: make_row_def)
  then show ?thesis
    using assms by (simp add: api_admin_update_def tasks_key_def Let_def)
qed

lemma tasks_key_booking:
  assumes "tasks_key d"
  shows "tasks_key (snd (api_appointments_create now d data))"
  using assms
  by (simp add: api_appointments_create_def tasks_key_def Let_def split: option.splits)

end
